theory Spec2Isabelle
  imports Main "HOL-Library.Word"
begin

section \<open>Strings: the CID-string helper of \<^verbatim>\<open>main.go\<close>\<close>

text \<open>
  A Go \<^verbatim>\<open>string\<close> is a sequence of bytes, here a \<^typ>\<open>string\<close> (a list of 8-bit
  characters). A Go \<^verbatim>\<open>error\<close> value is modelled by its message; \<^verbatim>\<open>nil\<close> is
  \<^term>\<open>None\<close> where the code holds an error variable, and a fallible call returns
  \<open>error + 'a\<close> with \<^term>\<open>Inl\<close> for the failure.
\<close>

type_synonym error = string

text \<open>
  \<^verbatim>\<open>strings.LastIndex(s, "/")\<close>: for a one-byte separator the Go library scans from the
  last byte down to the first and returns the index of the first hit, or \<open>-1\<close>.
\<close>

fun LastIndexByte_from :: "string \<Rightarrow> char \<Rightarrow> nat \<Rightarrow> int" where
  "LastIndexByte_from s c 0 = - 1"
| "LastIndexByte_from s c (Suc i) =
     (if s ! i = c then int i else LastIndexByte_from s c i)"

definition LastIndex :: "string \<Rightarrow> char \<Rightarrow> int" where
  "LastIndex s c = LastIndexByte_from s c (length s)"

text \<open>
  The slice expression \<^verbatim>\<open>str[lo:]\<close>. Go panics unless \<open>0 \<le> lo \<le> len(str)\<close>; the
  panic is the \<^term>\<open>Inl\<close> branch.
\<close>

definition slice_from :: "string \<Rightarrow> int \<Rightarrow> error + string" where
  "slice_from str lo =
     (if lo < 0 \<or> int (length str) < lo
      then Inl ''runtime error: slice bounds out of range''
      else Inr (drop (nat lo) str))"

text \<open>
  \<^verbatim>\<open>strings.Trim(s, cutset)\<close> for a cutset of ASCII bytes: bytes of the cutset are removed
  from the right end, then from the left end. Bytes of a multi-byte UTF-8 sequence are
  \<open>\<ge> 0x80\<close> and so never belong to an ASCII cutset, which makes the byte-wise reading exact.
\<close>

fun trimLeftASCII :: "string \<Rightarrow> char list \<Rightarrow> string" where
  "trimLeftASCII [] as = []"
| "trimLeftASCII (c # s) as = (if c \<in> set as then trimLeftASCII s as else c # s)"

definition trimRightASCII :: "string \<Rightarrow> char list \<Rightarrow> string" where
  "trimRightASCII s as = rev (trimLeftASCII (rev s) as)"

definition Trim :: "string \<Rightarrow> char list \<Rightarrow> string" where
  "Trim s cutset =
     (if s = [] \<or> cutset = [] then s
      else trimLeftASCII (trimRightASCII s cutset) cutset)"

text \<open>The cutset \<^verbatim>\<open>" \r\n"\<close>: space, carriage return, line feed.\<close>

definition cutset_ws :: "char list" where
  "cutset_ws = [CHR '' '', CHR 0x0D, CHR 0x0A]"

text \<open>
  \<^verbatim>\<open>
  func GetCidStrFromString(str string) (cidStr string) {
      cidStr = str[strings.LastIndex(str, "/")+1:]
      cidStr = strings.Trim(cidStr, " \r\n")
      return cidStr
  }
  \<close>
\<close>

definition GetCidStrFromString :: "string \<Rightarrow> error + string" where
  "GetCidStrFromString str =
     (case slice_from str (LastIndex str (CHR ''/'') + 1) of
        Inl p \<Rightarrow> Inl p
      | Inr cidStr \<Rightarrow> Inr (Trim cidStr cutset_ws))"

section \<open>Values the program handles\<close>

text \<open>
  \<^verbatim>\<open>files.Node\<close>: a file with its bytes, or a directory with its named entries in order.
  \<^verbatim>\<open>files.NewSliceDirectory([]files.DirEntry{files.FileEntry(name, n)})\<close> is
  \<open>Directory [(name, n)]\<close>.
\<close>

datatype fnode = File string | Directory "(string \<times> fnode) list"

text \<open>\<^verbatim>\<open>os.FileInfo\<close>; the program reads \<^verbatim>\<open>IsDir()\<close> only.\<close>

record FileInfo =
  IsDir :: bool

text \<open>
  A binary content identifier (\<^verbatim>\<open>cid.Cid\<close>), opaque to the program, and an immutable
  path (\<^verbatim>\<open>path.ImmutablePath\<close>): a root identifier and the remaining segments.
  \<^verbatim>\<open>path.FromCid(c)\<close> is the path of \<open>c\<close> with no segment.
\<close>

datatype cid = Cid string

datatype ipath = ImmutablePath cid "string list"

definition FromCid :: "cid \<Rightarrow> ipath" where
  "FromCid c = ImmutablePath c []"

text \<open>
  \<^verbatim>\<open>context.Context\<close>, by the way it was built. The program builds
  \<^verbatim>\<open>context.WithCancel(context.Background())\<close> only; \<open>WithDeadline\<close> is the constructor
  a deadline would need (a time in some unit), and \<open>Deadline\<close> reads it as the Go method does.
\<close>

datatype Context = Background | WithCancel Context | WithDeadline nat Context

fun Deadline :: "Context \<Rightarrow> nat option" where
  "Deadline Background = None"
| "Deadline (WithCancel parent) = Deadline parent"
| "Deadline (WithDeadline d parent) =
     (case Deadline parent of None \<Rightarrow> Some d | Some d' \<Rightarrow> Some (min d d'))"

text \<open>Handles of the node library; the program passes them on unread.\<close>

datatype PluginLoader = PluginLoader nat

datatype fsrepo = FSRepo nat

datatype IpfsNode = IpfsNode nat

datatype CoreAPI = CoreAPI nat

text \<open>\<^verbatim>\<open>config.Config\<close>: the four experimental switches the program sets, the rest opaque.\<close>

record Config =
  Identity :: string
  FilestoreEnabled :: bool
  UrlstoreEnabled :: bool
  Libp2pStreamMounting :: bool
  P2pHttpProxy :: bool

datatype RoutingOption = DHTOption | DHTClientOption

record BuildCfg =
  Online :: bool
  Routing :: RoutingOption
  Repo :: fsrepo

text \<open>An entry received from \<^verbatim>\<open>Unixfs().Ls\<close>; the program reads \<^verbatim>\<open>Name\<close> only.\<close>

record DirEntry =
  Name :: string

text \<open>The two signals the program registers for.\<close>

datatype signal = SIGINT | SIGTERM

section \<open>The environment of a run\<close>

text \<open>
  Everything outside \<^verbatim>\<open>main.go\<close> (the Go standard library, the kubo and boxo node
  library, the file system, the network, the operating system) answers the program's calls.
  An \<open>env\<close> holds one answer function per call the program makes; the theorems below hold
  for every \<open>env\<close> unless an assumption about it is written out.
  \<^item> \<open>flagExp\<close> is the package-level \<^verbatim>\<open>-experimental\<close> flag.
  \<^item> \<open>unixfs_Get\<close> answers \<^term>\<open>None\<close> when the call never returns (the library waits
    for the block until its context is done).
  \<^item> \<open>signal_recv\<close> is the first registered signal delivered to the process after
    \<^verbatim>\<open>signal.Notify\<close>, \<^term>\<open>None\<close> when none ever arrives.
\<close>

record env =
  flagExp :: bool
  filepath_Join :: "string list \<Rightarrow> string"
  filepath_Base :: "string \<Rightarrow> string"
  filepath_Clean :: "string \<Rightarrow> string"
  loader_NewPluginLoader :: "string \<Rightarrow> error + PluginLoader"
  plugins_Initialize :: "PluginLoader \<Rightarrow> error option"
  plugins_Inject :: "PluginLoader \<Rightarrow> error option"
  os_MkdirTemp :: "string \<Rightarrow> string \<Rightarrow> error + string"
  config_Init :: "nat \<Rightarrow> error + Config"
  fsrepo_Init :: "string \<Rightarrow> Config \<Rightarrow> error option"
  fsrepo_Open :: "string \<Rightarrow> error + fsrepo"
  core_NewNode :: "Context \<Rightarrow> BuildCfg \<Rightarrow> error + IpfsNode"
  coreapi_NewCoreAPI :: "IpfsNode \<Rightarrow> error + CoreAPI"
  os_Stat :: "string \<Rightarrow> error + FileInfo"
  files_NewSerialFile :: "string \<Rightarrow> bool \<Rightarrow> FileInfo \<Rightarrow> error + fnode"
  unixfs_Add :: "CoreAPI \<Rightarrow> Context \<Rightarrow> fnode \<Rightarrow> error + ipath"
  unixfs_Ls :: "CoreAPI \<Rightarrow> Context \<Rightarrow> ipath \<Rightarrow> error + DirEntry list"
  unixfs_Get :: "CoreAPI \<Rightarrow> Context \<Rightarrow> ipath \<Rightarrow> (error + fnode) option"
  node_Size :: "fnode \<Rightarrow> error + 64 word"
  humanize_Bytes :: "64 word \<Rightarrow> string"
  path_String :: "ipath \<Rightarrow> string"
  cid_Parse :: "string \<Rightarrow> error + cid"
  os_MkdirAll :: "string \<Rightarrow> nat \<Rightarrow> error option"
  files_WriteTo :: "fnode \<Rightarrow> string \<Rightarrow> error option"
  signal_recv :: "signal option"

section \<open>The process: state, effects, outcomes\<close>

text \<open>
  What the process does to the outside is a trace of events, one per call with an effect,
  in program order. \<open>Println\<close> and \<open>Printf\<close> write to standard output; \<open>Printf\<close> keeps
  the format and its operands.
\<close>

datatype arg = S string | D int

datatype event =
    Println string
  | Printf string "arg list"
  | Call_NewPluginLoader string
  | Call_Initialize PluginLoader
  | Call_Inject PluginLoader
  | Call_MkdirTemp string string
  | Call_fsrepo_Init string Config
  | Call_fsrepo_Open string
  | Call_NewNode Context BuildCfg
  | Call_Add CoreAPI Context fnode
  | Call_Ls CoreAPI Context ipath
  | Call_Get CoreAPI Context ipath
  | Call_MkdirAll string nat
  | Call_WriteTo fnode string
  | Go_ForeverSpin
  | Call_Notify "signal list"
  | Received signal
  | Call_cancel

text \<open>
  The process state: the done flag of the package-level \<^verbatim>\<open>sync.Once\<close>
  (\<^verbatim>\<open>loadPluginsOnce\<close>) and the trace so far.
\<close>

record proc =
  loadPluginsOnce :: bool
  trace :: "event list"

definition init_proc :: proc where
  "init_proc = \<lparr>loadPluginsOnce = False, trace = []\<rparr>"

text \<open>
  A call returns a value, panics with a value (here the message of the error passed to
  \<^verbatim>\<open>panic\<close>), or never returns.
\<close>

datatype 'a outcome = Returns 'a | Panics error | Blocks

type_synonym 'a run = "proc \<Rightarrow> 'a outcome \<times> proc"

definition ret :: "'a \<Rightarrow> 'a run" where
  "ret v s = (Returns v, s)"

definition panic :: "error \<Rightarrow> 'a run" where
  "panic m s = (Panics m, s)"

definition block :: "'a run" where
  "block s = (Blocks, s)"

definition emit :: "event \<Rightarrow> unit run" where
  "emit ev s = (Returns (), s\<lparr>trace := trace s @ [ev]\<rparr>)"

text \<open>Sequencing: the rest of the function body runs only when the call returned.\<close>

definition bnd :: "'a run \<Rightarrow> ('a \<Rightarrow> 'b run) \<Rightarrow> 'b run" where
  "bnd m k s =
     (case m s of
        (Returns v, s') \<Rightarrow> k v s'
      | (Panics p, s') \<Rightarrow> (Panics p, s')
      | (Blocks, s') \<Rightarrow> (Blocks, s'))"

text \<open>
  \<^verbatim>\<open>defer d()\<close> followed by the rest of the body: \<open>d\<close> runs when the body returns and
  when it panics, and the panic goes on after it.
\<close>

definition deferring :: "unit run \<Rightarrow> 'a run \<Rightarrow> 'a run" where
  "deferring d body s =
     (case body s of
        (Returns v, s') \<Rightarrow> (Returns v, snd (d s'))
      | (Panics p, s') \<Rightarrow> (Panics p, snd (d s'))
      | (Blocks, s') \<Rightarrow> (Blocks, s'))"

text \<open>
  \<^verbatim>\<open>loadPluginsOnce.Do(f)\<close>: \<open>f\<close> runs if and only if the flag is not set yet, and the flag
  is set when \<open>f\<close> is over, also by a panic. The result is \<^term>\<open>None\<close> when \<open>f\<close> did not run.
\<close>

definition Once_Do :: "'a run \<Rightarrow> 'a option run" where
  "Once_Do f s =
     (if loadPluginsOnce s then (Returns None, s)
      else (case f s of
              (Returns v, s') \<Rightarrow> (Returns (Some v), s'\<lparr>loadPluginsOnce := True\<rparr>)
            | (Panics p, s') \<Rightarrow> (Panics p, s'\<lparr>loadPluginsOnce := True\<rparr>)
            | (Blocks, s') \<Rightarrow> (Blocks, s')))"

text \<open>\<^verbatim>\<open>fmt.Errorf(prefix + "%s", err)\<close>: the prefix followed by the message of \<open>err\<close>.\<close>

definition Errorf :: "string \<Rightarrow> error \<Rightarrow> error" where
  "Errorf prefix err = prefix @ err"

section \<open>The functions of \<^verbatim>\<open>main.go\<close>\<close>

text \<open>
  \<^verbatim>\<open>
  func SetupPlugins(externalPluginsPath string) error {
      plugins, err := loader.NewPluginLoader(filepath.Join(externalPluginsPath, "plugins"))
      if err != nil { return fmt.Errorf("error loading plugins: %s", err) }
      if err := plugins.Initialize(); err != nil {
          return fmt.Errorf("error initializing plugins: %s", err) }
      if err := plugins.Inject(); err != nil {
          return fmt.Errorf("error initializing plugins: %s", err) }
      return nil
  }
  \<close>
\<close>

definition SetupPlugins :: "env \<Rightarrow> string \<Rightarrow> error option run" where
  "SetupPlugins e externalPluginsPath =
     bnd (emit (Call_NewPluginLoader (filepath_Join e [externalPluginsPath, ''plugins'']))) (\<lambda>_.
     case loader_NewPluginLoader e (filepath_Join e [externalPluginsPath, ''plugins'']) of
       Inl err \<Rightarrow> ret (Some (Errorf ''error loading plugins: '' err))
     | Inr plugins \<Rightarrow>
         bnd (emit (Call_Initialize plugins)) (\<lambda>_.
         case plugins_Initialize e plugins of
           Some err \<Rightarrow> ret (Some (Errorf ''error initializing plugins: '' err))
         | None \<Rightarrow>
             bnd (emit (Call_Inject plugins)) (\<lambda>_.
             case plugins_Inject e plugins of
               Some err \<Rightarrow> ret (Some (Errorf ''error initializing plugins: '' err))
             | None \<Rightarrow> ret None)))"

text \<open>
  \<^verbatim>\<open>CreateTempRepo\<close>: a temporary directory, a default configuration with a 2048 bit key,
  the experimental switches under \<^verbatim>\<open>*flagExp\<close>, then \<^verbatim>\<open>fsrepo.Init\<close>.
\<close>

definition CreateTempRepo :: "env \<Rightarrow> (error + string) run" where
  "CreateTempRepo e =
     bnd (emit (Call_MkdirTemp [] ''ipfs-shell'')) (\<lambda>_.
     case os_MkdirTemp e [] ''ipfs-shell'' of
       Inl err \<Rightarrow> ret (Inl (Errorf ''failed to get temp dir: '' err))
     | Inr repoPath \<Rightarrow>
         (case config_Init e 2048 of
            Inl err \<Rightarrow> ret (Inl err)
          | Inr cfg0 \<Rightarrow>
              (let cfg = (if flagExp e
                          then cfg0\<lparr>FilestoreEnabled := True, UrlstoreEnabled := True,
                                   Libp2pStreamMounting := True, P2pHttpProxy := True\<rparr>
                          else cfg0)
               in bnd (emit (Call_fsrepo_Init repoPath cfg)) (\<lambda>_.
                  case fsrepo_Init e repoPath cfg of
                    Some err \<Rightarrow> ret (Inl (Errorf ''failed to init ephemeral node: '' err))
                  | None \<Rightarrow> ret (Inr repoPath)))))"

text \<open>\<^verbatim>\<open>CreateNode\<close>: open the repo and build an online node that is a full DHT node.\<close>

definition CreateNode :: "env \<Rightarrow> Context \<Rightarrow> string \<Rightarrow> (error + IpfsNode) run" where
  "CreateNode e ctx repoPath =
     bnd (emit (Call_fsrepo_Open repoPath)) (\<lambda>_.
     case fsrepo_Open e repoPath of
       Inl err \<Rightarrow> ret (Inl err)
     | Inr repo \<Rightarrow>
         (let nodeOptions = \<lparr>Online = True, Routing = DHTOption, Repo = repo\<rparr>
          in bnd (emit (Call_NewNode ctx nodeOptions)) (\<lambda>_.
             ret (core_NewNode e ctx nodeOptions))))"

text \<open>
  \<^verbatim>\<open>GetUnixfsNode\<close>: \<^verbatim>\<open>os.Stat\<close>, then \<^verbatim>\<open>files.NewSerialFile(path, false, st)\<close>; it only
  reads.
\<close>

definition GetUnixfsNode :: "env \<Rightarrow> string \<Rightarrow> error + fnode" where
  "GetUnixfsNode e path =
     (case os_Stat e path of
        Inl err \<Rightarrow> Inl err
      | Inr st \<Rightarrow>
          (case files_NewSerialFile e path False st of
             Inl err \<Rightarrow> Inl err
           | Inr f \<Rightarrow> Inr f))"

text \<open>
  \<^verbatim>\<open>
  func SpawnEphemeral(ctx context.Context) (icore.CoreAPI, *core.IpfsNode, error) {
      var onceErr error
      loadPluginsOnce.Do(func() { onceErr = SetupPlugins("") })
      if onceErr != nil { return nil, nil, onceErr }
      repoPath, err := CreateTempRepo()
      if err != nil { return nil, nil, fmt.Errorf("failed to create temp repo: %s", err) }
      node, err := CreateNode(ctx, repoPath)
      if err != nil { return nil, nil, err }
      api, err := coreapi.NewCoreAPI(node)
      return api, node, err
  }
  \<close>
  \<open>onceErr\<close> is a local variable and starts as \<^verbatim>\<open>nil\<close> at every call; the closure alone
  assigns it. An error result is \<^term>\<open>Inl\<close>; the only caller reads nothing else then.
\<close>

definition SpawnEphemeral :: "env \<Rightarrow> Context \<Rightarrow> (error + CoreAPI \<times> IpfsNode) run" where
  "SpawnEphemeral e ctx =
     bnd (Once_Do (SetupPlugins e [])) (\<lambda>ran.
     let onceErr = (case ran of None \<Rightarrow> None | Some r \<Rightarrow> r) in
     case onceErr of
       Some err \<Rightarrow> ret (Inl err)
     | None \<Rightarrow>
         bnd (CreateTempRepo e) (\<lambda>r.
         case r of
           Inl err \<Rightarrow> ret (Inl (Errorf ''failed to create temp repo: '' err))
         | Inr repoPath \<Rightarrow>
             bnd (CreateNode e ctx repoPath) (\<lambda>r.
             case r of
               Inl err \<Rightarrow> ret (Inl err)
             | Inr node \<Rightarrow>
                 (case coreapi_NewCoreAPI e node of
                    Inl err \<Rightarrow> ret (Inl err)
                  | Inr api \<Rightarrow> ret (Inr (api, node))))))"

text \<open>
  \<^verbatim>\<open>
  func StartIpfsNode() (context.Context, icore.CoreAPI, context.CancelFunc, error) {
      fmt.Println("-- Getting an IPFS node running -- ")
      ctx, cancel := context.WithCancel(context.Background())
      fmt.Println("Spawning Kubo node on a temporary repo")
      ipfsB, _, err := SpawnEphemeral(ctx)
      if err != nil { panic(fmt.Errorf("failed to spawn ephemeral node: %s", err)) }
      fmt.Println("IPFS node is running")
      return ctx, ipfsB, cancel, err
  }
  \<close>
  The cancel function is not a value of the model: calling it is the event \<open>Call_cancel\<close>.
\<close>

definition StartIpfsNode :: "env \<Rightarrow> (Context \<times> CoreAPI \<times> error option) run" where
  "StartIpfsNode e =
     bnd (emit (Println ''-- Getting an IPFS node running -- '')) (\<lambda>_.
     let ctx = WithCancel Background in
     bnd (emit (Println ''Spawning Kubo node on a temporary repo'')) (\<lambda>_.
     bnd (SpawnEphemeral e ctx) (\<lambda>r.
     case r of
       Inl err \<Rightarrow> panic (Errorf ''failed to spawn ephemeral node: '' err)
     | Inr (ipfsB, _) \<Rightarrow>
         bnd (emit (Println ''IPFS node is running'')) (\<lambda>_.
         ret (ctx, ipfsB, None)))))"

text \<open>
  The loop shared by both operations:
  \<^verbatim>\<open>
  fileCounter := 0
  for de := range c {
      fileCounter += 1
      fmt.Printf("%d file name: %v\n", fileCounter, de.Name)
  }
  \<close>
\<close>

fun range_entries :: "int \<Rightarrow> DirEntry list \<Rightarrow> unit run" where
  "range_entries fileCounter [] s = (Returns (), s)"
| "range_entries fileCounter (de # c) s =
     range_entries (fileCounter + 1) c
       (s\<lparr>trace := trace s @
             [Printf ''%d file name: %v\<newline>'' [D (fileCounter + 1), S (Name de)]]\<rparr>)"

text \<open>The \<open>err\<close> of a call that returns \<^verbatim>\<open>(value, err)\<close>.\<close>

fun err_of :: "error + 'a \<Rightarrow> error option" where
  "err_of (Inl x) = Some x"
| "err_of (Inr v) = None"

text \<open>\<^verbatim>\<open><-quitChannel\<close> after \<^verbatim>\<open>signal.Notify(quitChannel, SIGINT, SIGTERM)\<close>.\<close>

definition receive :: "env \<Rightarrow> signal run" where
  "receive e =
     (case signal_recv e of
        None \<Rightarrow> block
      | Some sg \<Rightarrow> bnd (emit (Received sg)) (\<lambda>_. ret sg))"

text \<open>
  \<^verbatim>\<open>UploadFiles(flagFilePath) (cidStr string, err error)\<close>, lines 175 to 235. The named
  result \<open>err\<close> is assigned last by \<^verbatim>\<open>fileSize, err := someFile.Size()\<close>, and the function
  goes past that line only when it is \<^verbatim>\<open>nil\<close>; \<open>err_of\<close> is the value of that variable.
  \<^verbatim>\<open>ctx.Done()\<close> only reads a channel.
  \<^verbatim>\<open>defer cancel()\<close> is the last statement before \<^verbatim>\<open>return\<close>, so \<open>cancel\<close> runs at
  that return and at no panic.
\<close>

definition UploadFiles :: "env \<Rightarrow> string \<Rightarrow> (string \<times> error option) run" where
  "UploadFiles e flagFilePath =
     bnd (StartIpfsNode e) (\<lambda>(ctx, ipfsA, err).
     case err of
       Some x \<Rightarrow> panic (Errorf ''error: '' x)
     | None \<Rightarrow>
     (case GetUnixfsNode e flagFilePath of
       Inl x \<Rightarrow> panic (Errorf ''error: '' x)
     | Inr someFile0 \<Rightarrow>
     (case os_Stat e flagFilePath of
       Inl x \<Rightarrow> panic (Errorf ''error: '' x)
     | Inr fileInfo \<Rightarrow>
     (let someFile = (if \<not> IsDir fileInfo
                      then Directory [(filepath_Base e flagFilePath, someFile0)]
                      else someFile0)
      in
     bnd (emit (Call_Add ipfsA ctx someFile)) (\<lambda>_.
     case unixfs_Add e ipfsA ctx someFile of
       Inl x \<Rightarrow> panic (Errorf ''error: '' x)
     | Inr cidFile \<Rightarrow>
     bnd (emit (Printf ''Added file to IPFS. Now share this CID with your friend:\<newline>%s\<newline>''
                  [S (path_String e cidFile)])) (\<lambda>_.
     bnd (emit (Call_Ls ipfsA ctx cidFile)) (\<lambda>_.
     case unixfs_Ls e ipfsA ctx cidFile of
       Inl x \<Rightarrow> panic (Errorf ''could not find Ls from Cid: '' x)
     | Inr c \<Rightarrow>
     bnd (range_entries 0 c) (\<lambda>_.
     case node_Size e someFile of
       Inl x \<Rightarrow> panic (Errorf ''error: '' x)
     | Inr fileSize \<Rightarrow>
     bnd (emit (Printf ''Seeding size: %s\<newline>'' [S (humanize_Bytes e fileSize)])) (\<lambda>_.
     bnd (emit Go_ForeverSpin) (\<lambda>_.
     bnd (emit (Call_Notify [SIGINT, SIGTERM])) (\<lambda>_.
     bnd (receive e) (\<lambda>_.
     bnd (emit (Println ''\<newline>Adios!'')) (\<lambda>_.
     bnd (emit Call_cancel) (\<lambda>_.
     ret (path_String e cidFile, err_of (node_Size e someFile))))))))))))))))"

text \<open>
  \<^verbatim>\<open>DownloadFromCid(cidStr) (outputPath string, err error, progress int64)\<close>, lines 244
  to 298. \<^verbatim>\<open>defer cancel()\<close> follows the start of the node, so \<open>cancel\<close> runs at the return
  and at every later panic. \<^verbatim>\<open>shouldWorkButNot\<close> is the constant \<^verbatim>\<open>false\<close>, the
  permission \<^verbatim>\<open>0o777\<close> is 511, and the \<open>err\<close> returned is the variable last assigned by
  \<^verbatim>\<open>files.WriteTo\<close>.
\<close>

definition DownloadFromCid :: "env \<Rightarrow> string \<Rightarrow> (string \<times> error option \<times> int) run" where
  "DownloadFromCid e cidStr0 =
     bnd (StartIpfsNode e) (\<lambda>(ctx, ipfsA, err).
     case err of
       Some x \<Rightarrow> panic (Errorf ''error: '' x)
     | None \<Rightarrow>
     deferring (emit Call_cancel)
     (case GetCidStrFromString cidStr0 of
       Inl p \<Rightarrow> panic p
     | Inr cidStr \<Rightarrow>
     (case cid_Parse e cidStr of
       Inl x \<Rightarrow> panic (Errorf ''error: '' x)
     | Inr cidFromString \<Rightarrow>
     bnd (emit (Printf ''Fetching a file from the network with CID %s\<newline>'' [S cidStr])) (\<lambda>_.
     let testCID = FromCid cidFromString in
     bnd (emit (Call_Get ipfsA ctx testCID)) (\<lambda>_.
     case unixfs_Get e ipfsA ctx testCID of
       None \<Rightarrow> block
     | Some (Inl x) \<Rightarrow> panic (Errorf ''error: '' x)
     | Some (Inr rootNode) \<Rightarrow>
     bnd (emit (Call_Ls ipfsA ctx testCID)) (\<lambda>_.
     case unixfs_Ls e ipfsA ctx testCID of
       Inl x \<Rightarrow> panic (Errorf ''could not find Ls info from Cid: '' x)
     | Inr c \<Rightarrow>
     bnd (range_entries 0 c) (\<lambda>_.
     let shouldWorkButNot = False;
         outputPath = (if shouldWorkButNot then ''.'' else ''./Download/'' @ cidStr)
     in
     bnd (emit (Call_MkdirAll ''Download'' 511)) (\<lambda>_.
     case os_MkdirAll e ''Download'' 511 of
       Some x \<Rightarrow> panic (Errorf ''error: '' x)
     | None \<Rightarrow>
     bnd (emit (Call_WriteTo rootNode (filepath_Clean e outputPath))) (\<lambda>_.
     case files_WriteTo e rootNode (filepath_Clean e outputPath) of
       Some x \<Rightarrow> panic (Errorf ''error: '' x)
     | None \<Rightarrow>
     bnd (emit (Printf ''Wrote the files to %s\<newline>'' [S outputPath])) (\<lambda>_.
     ret (outputPath, files_WriteTo e rootNode (filepath_Clean e outputPath), 100)))))))))))"

text \<open>
  \<^verbatim>\<open>main\<close>, after \<^verbatim>\<open>flag.Parse()\<close> has stored the values of \<^verbatim>\<open>-c\<close> and \<^verbatim>\<open>-f\<close> (each
  the empty string when the flag is absent). The results of both operations are dropped.
\<close>

definition usage :: string where
  \<open>usage = ''Use flags -f "example.jpg" or -c "exampleCid" to share files for example:\<newline>./fsg -f "example.jpg"\<newline>or to download files\<newline>./fsg -c "exampleCid"''\<close>

definition main :: "env \<Rightarrow> string \<Rightarrow> string \<Rightarrow> unit run" where
  "main e flagCid flagFilePath =
     (if flagCid \<noteq> [] \<or> flagFilePath \<noteq> [] then
        (if flagCid \<noteq> [] then bnd (DownloadFromCid e flagCid) (\<lambda>_. ret ())
         else if flagFilePath \<noteq> [] then bnd (UploadFiles e flagFilePath) (\<lambda>_. ret ())
         else ret ())
      else emit (Println usage))"

text \<open>
  The exit status of the process from the outcome of \<^verbatim>\<open>main\<close>: 0 when it returns, 2 when
  a panic reaches the top (the Go runtime prints it and exits with 2), none while it has
  not ended.
\<close>

fun exit_status :: "'a outcome \<Rightarrow> nat option" where
  "exit_status (Returns v) = Some 0"
| "exit_status (Panics p) = Some 2"
| "exit_status Blocks = None"

section \<open>Reading a trace\<close>

text \<open>The events of the loop over the entries, for a counter that starts at \<open>fileCounter\<close>.\<close>

fun entry_events :: "int \<Rightarrow> DirEntry list \<Rightarrow> event list" where
  "entry_events fileCounter [] = []"
| "entry_events fileCounter (de # c) =
     Printf ''%d file name: %v\<newline>'' [D (fileCounter + 1), S (Name de)]
       # entry_events (fileCounter + 1) c"

text \<open>The events \<^verbatim>\<open>StartIpfsNode\<close> and the functions under it can emit.\<close>

fun startup_event :: "event \<Rightarrow> bool" where
  "startup_event (Println l) = True"
| "startup_event (Call_NewPluginLoader p) = True"
| "startup_event (Call_Initialize pl) = True"
| "startup_event (Call_Inject pl) = True"
| "startup_event (Call_MkdirTemp d p) = True"
| "startup_event (Call_fsrepo_Init p c) = True"
| "startup_event (Call_fsrepo_Open p) = True"
| "startup_event (Call_NewNode c b) = True"
| "startup_event ev = False"

text \<open>
  The events of a publish from \<^verbatim>\<open>Add\<close> to the wait for a signal, and of a fetch from the
  announcement to the deferred \<open>cancel\<close>, when every call succeeds.
\<close>

definition publish_events ::
  "env \<Rightarrow> CoreAPI \<Rightarrow> Context \<Rightarrow> fnode \<Rightarrow> ipath \<Rightarrow> DirEntry list \<Rightarrow> 64 word \<Rightarrow> event list" where
  "publish_events e api ctx someFile cidFile c fileSize =
     [Call_Add api ctx someFile,
      Printf ''Added file to IPFS. Now share this CID with your friend:\<newline>%s\<newline>''
        [S (path_String e cidFile)],
      Call_Ls api ctx cidFile]
     @ entry_events 0 c
     @ [Printf ''Seeding size: %s\<newline>'' [S (humanize_Bytes e fileSize)],
        Go_ForeverSpin,
        Call_Notify [SIGINT, SIGTERM]]"

definition fetch_events ::
  "env \<Rightarrow> CoreAPI \<Rightarrow> Context \<Rightarrow> string \<Rightarrow> cid \<Rightarrow> fnode \<Rightarrow> DirEntry list \<Rightarrow> event list" where
  "fetch_events e api ctx cidStr c rootNode entries =
     [Printf ''Fetching a file from the network with CID %s\<newline>'' [S cidStr],
      Call_Get api ctx (FromCid c),
      Call_Ls api ctx (FromCid c)]
     @ entry_events 0 entries
     @ [Call_MkdirAll ''Download'' 511,
        Call_WriteTo rootNode (filepath_Clean e (''./Download/'' @ cidStr)),
        Printf ''Wrote the files to %s\<newline>'' [S (''./Download/'' @ cidStr)],
        Call_cancel]"

text \<open>
  The node \<^verbatim>\<open>UploadFiles\<close> holds in \<open>someFile\<close> after lines 193 to 197: a node that is
  not a directory is wrapped in a directory of one entry, named by \<^verbatim>\<open>filepath.Base\<close>.
\<close>

definition upload_node :: "env \<Rightarrow> string \<Rightarrow> FileInfo \<Rightarrow> fnode \<Rightarrow> fnode" where
  "upload_node e flagFilePath fileInfo someFile =
     (if \<not> IsDir fileInfo then Directory [(filepath_Base e flagFilePath, someFile)]
      else someFile)"

section \<open>An example environment\<close>

text \<open>
  One environment in which every call succeeds, used to run the program on concrete inputs:
  the path names a regular file \<open>a.txt\<close> holding \<open>hello\<close>, the node library answers with
  the identifier \<open>Qm1\<close>, and the process receives \<open>SIGINT\<close>.
\<close>

definition example_env :: env where
  "example_env = \<lparr>
     flagExp = False,
     filepath_Join = (\<lambda>elems. concat (filter (\<lambda>x. x \<noteq> []) elems)),
     filepath_Base = (\<lambda>p. rev (takeWhile (\<lambda>c. c \<noteq> CHR ''/'') (rev p))),
     filepath_Clean = (\<lambda>p. if take 2 p = ''./'' then drop 2 p else p),
     loader_NewPluginLoader = (\<lambda>p. Inr (PluginLoader 0)),
     plugins_Initialize = (\<lambda>pl. None),
     plugins_Inject = (\<lambda>pl. None),
     os_MkdirTemp = (\<lambda>d p. Inr ''/tmp/ipfs-shell1''),
     config_Init = (\<lambda>bits. Inr \<lparr>Identity = ''peer'', FilestoreEnabled = False,
        UrlstoreEnabled = False, Libp2pStreamMounting = False, P2pHttpProxy = False\<rparr>),
     fsrepo_Init = (\<lambda>p c. None),
     fsrepo_Open = (\<lambda>p. Inr (FSRepo 0)),
     core_NewNode = (\<lambda>c b. Inr (IpfsNode 0)),
     coreapi_NewCoreAPI = (\<lambda>n. Inr (CoreAPI 0)),
     os_Stat = (\<lambda>p. Inr \<lparr>IsDir = False\<rparr>),
     files_NewSerialFile = (\<lambda>p b st. Inr (File ''hello'')),
     unixfs_Add = (\<lambda>api c n. Inr (FromCid (Cid ''Qm1''))),
     unixfs_Ls = (\<lambda>api c p. Inr [\<lparr>Name = ''a.txt''\<rparr>]),
     unixfs_Get = (\<lambda>api c p. Some (Inr (Directory [(''a.txt'', File ''hello'')]))),
     node_Size = (\<lambda>n. Inr 5),
     humanize_Bytes = (\<lambda>w. ''5 B''),
     path_String = (\<lambda>p. case p of ImmutablePath (Cid c) segs \<Rightarrow> ''/ipfs/'' @ c),
     cid_Parse = (\<lambda>str. if str = [] then Inl ''invalid cid'' else Inr (Cid str)),
     os_MkdirAll = (\<lambda>p m. None),
     files_WriteTo = (\<lambda>n p. None),
     signal_recv = Some SIGINT\<rparr>"

text \<open>The state of a fresh process in that environment once the node runs.\<close>

definition example_started :: proc where
  "example_started =
     \<lparr>loadPluginsOnce = True,
      trace = [Println ''-- Getting an IPFS node running -- '',
               Println ''Spawning Kubo node on a temporary repo'',
               Call_NewPluginLoader ''plugins'',
               Call_Initialize (PluginLoader 0),
               Call_Inject (PluginLoader 0),
               Call_MkdirTemp [] ''ipfs-shell'',
               Call_fsrepo_Init ''/tmp/ipfs-shell1''
                 \<lparr>Identity = ''peer'', FilestoreEnabled = False, UrlstoreEnabled = False,
                  Libp2pStreamMounting = False, P2pHttpProxy = False\<rparr>,
               Call_fsrepo_Open ''/tmp/ipfs-shell1'',
               Call_NewNode (WithCancel Background)
                 \<lparr>Online = True, Routing = DHTOption, Repo = FSRepo 0\<rparr>,
               Println ''IPFS node is running'']\<rparr>"

text \<open>
  The example environment with a path that does not exist and a working directory in
  which \<open>Download\<close> cannot be created.
\<close>

definition failing_env :: env where
  "failing_env = example_env\<lparr>
     os_Stat := (\<lambda>p. Inl ''no such file or directory''),
     os_MkdirAll := (\<lambda>d m. Some ''permission denied'')\<rparr>"

text \<open>The example environment in which no signal ever arrives.\<close>

definition quiet_env :: env where
  "quiet_env = example_env\<lparr>signal_recv := None\<rparr>"

text \<open>The nodes handed to \<^verbatim>\<open>Add\<close>, and the nodes and targets handed to \<^verbatim>\<open>files.WriteTo\<close>.\<close>

fun added_nodes :: "event list \<Rightarrow> fnode list" where
  "added_nodes [] = []"
| "added_nodes (Call_Add api ctx n # evs) = n # added_nodes evs"
| "added_nodes (ev # evs) = added_nodes evs"

fun written_nodes :: "event list \<Rightarrow> (fnode \<times> string) list" where
  "written_nodes [] = []"
| "written_nodes (Call_WriteTo n target # evs) = (n, target) # written_nodes evs"
| "written_nodes (ev # evs) = written_nodes evs"

text \<open>The paths \<^verbatim>\<open>loader.NewPluginLoader\<close> was called with: one per run of \<^verbatim>\<open>SetupPlugins\<close>.\<close>

fun plugin_loads :: "event list \<Rightarrow> string list" where
  "plugin_loads [] = []"
| "plugin_loads (Call_NewPluginLoader p # evs) = p # plugin_loads evs"
| "plugin_loads (ev # evs) = plugin_loads evs"

text \<open>\<open>k\<close> invocations of \<^verbatim>\<open>SpawnEphemeral\<close> in a row, in one process.\<close>

fun spawn_repeatedly :: "env \<Rightarrow> Context \<Rightarrow> nat \<Rightarrow> proc \<Rightarrow> proc" where
  "spawn_repeatedly e ctx 0 s = s"
| "spawn_repeatedly e ctx (Suc k) s = spawn_repeatedly e ctx k (snd (SpawnEphemeral e ctx s))"

text \<open>The example environment in which the content behind the identifier is a single file.\<close>

definition single_file_env :: env where
  "single_file_env = example_env\<lparr>unixfs_Get := (\<lambda>api ctx p. Some (Inr (File ''hello'')))\<rparr>"

text \<open>
  The example environment in which no peer provides the content: \<^verbatim>\<open>Get\<close> reports that at
  the deadline of its context, and waits for ever when the context has none.
\<close>

definition no_providers_env :: env where
  "no_providers_env = example_env\<lparr>unixfs_Get :=
     (\<lambda>api ctx p. case Deadline ctx of
                     None \<Rightarrow> None
                   | Some d \<Rightarrow> Some (Inl ''NoProvidersFound''))\<rparr>"

text \<open>The example environment in which \<^verbatim>\<open>Get\<close> fails at once.\<close>

definition get_error_env :: env where
  "get_error_env = example_env\<lparr>unixfs_Get := (\<lambda>api ctx p. Some (Inl ''NoProvidersFound''))\<rparr>"

text \<open>The example environment in which the plugins cannot be loaded.\<close>

definition broken_plugins_env :: env where
  "broken_plugins_env = example_env\<lparr>loader_NewPluginLoader := (\<lambda>p. Inl ''boom'')\<rparr>"


text \<open>
  Every call of the start-up succeeds, and the last one yields \<open>api\<close>: the plugin loader is
  made, initialised and injected (unless \<^verbatim>\<open>loadPluginsOnce\<close> is done), the temporary
  directory and the configuration are made, the repository is initialised and opened, the
  node is built and gives its API.
\<close>

definition node_starts :: "env \<Rightarrow> proc \<Rightarrow> CoreAPI \<Rightarrow> bool" where
  "node_starts e s api \<longleftrightarrow>
     (loadPluginsOnce s \<or>
      (\<exists>plugins. loader_NewPluginLoader e (filepath_Join e [[], ''plugins'']) = Inr plugins
         \<and> plugins_Initialize e plugins = None \<and> plugins_Inject e plugins = None))
     \<and> (\<exists>repoPath cfg0 repo node.
          os_MkdirTemp e [] ''ipfs-shell'' = Inr repoPath
        \<and> config_Init e 2048 = Inr cfg0
        \<and> fsrepo_Init e repoPath
             (if flagExp e
              then cfg0\<lparr>FilestoreEnabled := True, UrlstoreEnabled := True,
                       Libp2pStreamMounting := True, P2pHttpProxy := True\<rparr>
              else cfg0) = None
        \<and> fsrepo_Open e repoPath = Inr repo
        \<and> core_NewNode e (WithCancel Background)
             \<lparr>Online = True, Routing = DHTOption, Repo = repo\<rparr> = Inr node
        \<and> coreapi_NewCoreAPI e node = Inr api)"


text \<open>The example environment in which the path names a directory of two files.\<close>

definition directory_env :: env where
  "directory_env = example_env\<lparr>
     os_Stat := (\<lambda>p. Inr \<lparr>IsDir = True\<rparr>),
     files_NewSerialFile := (\<lambda>p b st. Inr (Directory [(''a.txt'', File ''hello''),
                                                      (''b.txt'', File ''bye'')]))\<rparr>"

section \<open>Facts about the string helper\<close>

lemma LastIndexByte_from_bounds:
  "- 1 \<le> LastIndexByte_from s c n \<and> LastIndexByte_from s c n < int n"
  by (induction n) auto

lemma LastIndex_bounds: "- 1 \<le> LastIndex s c \<and> LastIndex s c < int (length s)"
  unfolding LastIndex_def by (rule LastIndexByte_from_bounds)

lemma LastIndexByte_from_absent:
  "n \<le> length s \<Longrightarrow> c \<notin> set s \<Longrightarrow> LastIndexByte_from s c n = - 1"
  by (induction n) auto

lemma LastIndex_absent: "c \<notin> set s \<Longrightarrow> LastIndex s c = - 1"
  unfolding LastIndex_def by (rule LastIndexByte_from_absent) simp_all

lemma LastIndexByte_from_skip:
  "c \<notin> set t \<Longrightarrow> n \<le> length t \<Longrightarrow>
   LastIndexByte_from (p @ c # t) c (Suc (length p) + n) = int (length p)"
  by (induction n) (auto simp: nth_append)

lemma LastIndex_last:
  "c \<notin> set t \<Longrightarrow> LastIndex (p @ c # t) c = int (length p)"
  using LastIndexByte_from_skip [of c t "length t" p]
  by (simp add: LastIndex_def)

lemma trimLeftASCII_dropWhile: "trimLeftASCII s as = dropWhile (\<lambda>c. c \<in> set as) s"
  by (induction s) auto

lemma Trim_dropWhile:
  "Trim s as = dropWhile (\<lambda>c. c \<in> set as) (rev (dropWhile (\<lambda>c. c \<in> set as) (rev s)))"
  by (cases "s = []") (auto simp: Trim_def trimRightASCII_def trimLeftASCII_dropWhile)

lemma Trim_split:
  "\<exists>l t. s = l @ Trim s as @ t \<and> set l \<subseteq> set as \<and> set t \<subseteq> set as"
proof -
  let ?P = "\<lambda>c. c \<in> set as"
  let ?m = "rev (dropWhile ?P (rev s))"
  have 1: "s = ?m @ rev (takeWhile ?P (rev s))"
    by (metis rev_append rev_rev_ident takeWhile_dropWhile_id)
  have 2: "?m = takeWhile ?P ?m @ Trim s as"
    by (simp add: Trim_dropWhile)
  have 3: "set (takeWhile ?P ?m) \<subseteq> set as"
    by (auto dest: set_takeWhileD)
  have 4: "set (rev (takeWhile ?P (rev s))) \<subseteq> set as"
    by (auto dest: set_takeWhileD)
  from 1 2 have "s = takeWhile ?P ?m @ Trim s as @ rev (takeWhile ?P (rev s))"
    by (metis append.assoc)
  with 3 4 show ?thesis by blast
qed

lemma Trim_ends:
  assumes "Trim s as \<noteq> []"
  shows "hd (Trim s as) \<notin> set as \<and> last (Trim s as) \<notin> set as"
proof -
  let ?P = "\<lambda>c. c \<in> set as"
  let ?m = "rev (dropWhile ?P (rev s))"
  have T: "Trim s as = dropWhile ?P ?m" by (simp add: Trim_dropWhile)
  with assms have ne: "dropWhile ?P ?m \<noteq> []" by simp
  then have h: "\<not> ?P (hd (dropWhile ?P ?m))" by (rule hd_dropWhile)
  from ne have mne: "?m \<noteq> []" by (metis dropWhile.simps(1))
  then have dne: "dropWhile ?P (rev s) \<noteq> []" by simp
  then have "\<not> ?P (hd (dropWhile ?P (rev s)))" by (rule hd_dropWhile)
  with dne have lm: "\<not> ?P (last ?m)" by (simp add: last_rev)
  obtain pre where "?m = pre @ dropWhile ?P ?m"
    by (metis takeWhile_dropWhile_id)
  with ne have "last ?m = last (dropWhile ?P ?m)" by (metis last_appendR)
  with lm h T show ?thesis by simp
qed

lemma Trim_clean:
  assumes "c \<noteq> [] \<longrightarrow> hd c \<notin> set as \<and> last c \<notin> set as"
  shows "Trim c as = c"
proof (cases "c = []")
  case True
  then show ?thesis by (simp add: Trim_def)
next
  case False
  with assms have h: "hd c \<notin> set as" and l: "last c \<notin> set as" by simp_all
  from False l have "dropWhile (\<lambda>x. x \<in> set as) (rev c) = rev c"
    by (cases "rev c") (auto simp: last_rev [symmetric] hd_rev)
  moreover from False h have "dropWhile (\<lambda>x. x \<in> set as) c = c"
    by (cases c) auto
  ultimately show ?thesis by (simp add: Trim_dropWhile)
qed

lemma GetCidStrFromString_total:
  "GetCidStrFromString s =
     Inr (Trim (drop (nat (LastIndex s (CHR ''/'') + 1)) s) cutset_ws)"
  using LastIndex_bounds [of s "CHR ''/''"]
  by (simp add: GetCidStrFromString_def slice_from_def)

lemma after_last_slash:
  "(CHR ''/'' \<notin> set s \<and> drop (nat (LastIndex s (CHR ''/'') + 1)) s = s) \<or>
   (\<exists>p. s = p @ [CHR ''/''] @ drop (nat (LastIndex s (CHR ''/'') + 1)) s \<and>
        CHR ''/'' \<notin> set (drop (nat (LastIndex s (CHR ''/'') + 1)) s))"
proof (cases "CHR ''/'' \<in> set s")
  case False
  then show ?thesis by (simp add: LastIndex_absent)
next
  case True
  then obtain p t where s: "s = p @ CHR ''/'' # t" and t: "CHR ''/'' \<notin> set t"
    by (auto dest: split_list_last)
  from t have "LastIndex s (CHR ''/'') = int (length p)"
    unfolding s by (rule LastIndex_last)
  moreover have "nat (int (length p) + 1) = Suc (length p)" by simp
  ultimately have "drop (nat (LastIndex s (CHR ''/'') + 1)) s = t"
    by (simp add: s)
  with s t show ?thesis by auto
qed

lemma GetCidStrFromString_ipfs:
  assumes "CHR ''/'' \<notin> set c"
  shows "GetCidStrFromString (''/ipfs/'' @ c) = Inr (Trim c cutset_ws)"
proof -
  have "LastIndex ((''/ipfs'') @ CHR ''/'' # c) (CHR ''/'') = int (length ''/ipfs'')"
    using assms by (rule LastIndex_last)
  then have "LastIndex (''/ipfs/'' @ c) (CHR ''/'') = 5" by simp
  then show ?thesis by (simp add: GetCidStrFromString_total)
qed

lemma set_cutset_ws: "set cutset_ws = {CHR '' '', CHR 0x0D, CHR 0x0A}"
  by (simp add: cutset_ws_def)

lemma strip_Qm1: "GetCidStrFromString ''Qm1'' = Inr ''Qm1''"
proof -
  have "CHR ''/'' \<notin> set ''Qm1''" by simp
  then have "LastIndex ''Qm1'' (CHR ''/'') = - 1" by (rule LastIndex_absent)
  then have "GetCidStrFromString ''Qm1'' = Inr (Trim ''Qm1'' cutset_ws)"
    by (simp add: GetCidStrFromString_total)
  moreover have "Trim ''Qm1'' cutset_ws = ''Qm1''"
    by (rule Trim_clean) (simp add: cutset_ws_def)
  ultimately show ?thesis by simp
qed

lemma strip_padded:
  "GetCidStrFromString (''/ipfs/ Qm1 '' @ [CHR 0x0D, CHR 0x0A]) = Inr ''Qm1''"
  by (simp add: GetCidStrFromString_def slice_from_def LastIndex_def Trim_def
      trimRightASCII_def cutset_ws_def)

lemma strip_blank: "GetCidStrFromString ''/ipfs/ '' = Inr []"
  by (simp add: GetCidStrFromString_def slice_from_def LastIndex_def Trim_def
      trimRightASCII_def cutset_ws_def)

lemma strip_empty: "GetCidStrFromString [] = Inr []"
  by (simp add: GetCidStrFromString_def slice_from_def LastIndex_def Trim_def)

section \<open>Facts about running the functions\<close>

lemmas run_defs = ret_def panic_def block_def emit_def bnd_def deferring_def

lemma range_entries_eq:
  "range_entries n c s = (Returns (), s\<lparr>trace := trace s @ entry_events n c\<rparr>)"
  by (induction c arbitrary: n s) simp_all

lemma SpawnEphemeral_returns:
  "\<exists>r s'. SpawnEphemeral e ctx s = (Returns r, s') \<and> loadPluginsOnce s'
      \<and> (\<exists>evs. trace s' = trace s @ evs \<and> list_all startup_event evs)"
  by (simp add: SpawnEphemeral_def Once_Do_def SetupPlugins_def CreateTempRepo_def
      CreateNode_def run_defs Let_def split: sum.splits option.splits)

lemma StartIpfsNode_cases:
  "\<exists>r s'. StartIpfsNode e s = (r, s')
      \<and> (\<exists>evs. trace s' = trace s @ evs \<and> list_all startup_event evs)
      \<and> ((\<exists>m. r = Panics m) \<or> (\<exists>api. r = Returns (WithCancel Background, api, None)))"
proof -
  let ?s0 = "s\<lparr>trace := trace s @ [Println ''-- Getting an IPFS node running -- '',
     Println ''Spawning Kubo node on a temporary repo'']\<rparr>"
  obtain r s1 evs where 1: "SpawnEphemeral e (WithCancel Background) ?s0 = (Returns r, s1)"
    "trace s1 = trace ?s0 @ evs" "list_all startup_event evs"
    using SpawnEphemeral_returns by blast
  show ?thesis
    using 1 by (cases r) (auto simp: StartIpfsNode_def run_defs Let_def)
qed

lemma StartIpfsNode_Returns:
  assumes "StartIpfsNode e s = (Returns v, s1)"
  shows "\<exists>repoPath cfg0 repo node api.
       (loadPluginsOnce s \<or>
        (\<exists>plugins. loader_NewPluginLoader e (filepath_Join e [[], ''plugins'']) = Inr plugins
           \<and> plugins_Initialize e plugins = None \<and> plugins_Inject e plugins = None))
     \<and> os_MkdirTemp e [] ''ipfs-shell'' = Inr repoPath
     \<and> config_Init e 2048 = Inr cfg0
     \<and> fsrepo_Init e repoPath
          (if flagExp e
           then cfg0\<lparr>FilestoreEnabled := True, UrlstoreEnabled := True,
                    Libp2pStreamMounting := True, P2pHttpProxy := True\<rparr>
           else cfg0) = None
     \<and> fsrepo_Open e repoPath = Inr repo
     \<and> core_NewNode e (WithCancel Background)
          \<lparr>Online = True, Routing = DHTOption, Repo = repo\<rparr> = Inr node
     \<and> coreapi_NewCoreAPI e node = Inr api
     \<and> v = (WithCancel Background, api, None)"
  using assms
  by (auto simp: StartIpfsNode_def SpawnEphemeral_def Once_Do_def SetupPlugins_def
      CreateTempRepo_def CreateNode_def run_defs Let_def
      split: sum.splits option.splits if_splits)

lemma StartIpfsNode_node_starts:
  "StartIpfsNode e s = (Returns (ctx, api, err), s1) \<Longrightarrow> node_starts e s api"
  using StartIpfsNode_Returns [of e s "(ctx, api, err)" s1]
  unfolding node_starts_def by blast

lemma GetUnixfsNode_reads:
  "os_Stat e p = Inr fi \<Longrightarrow> files_NewSerialFile e p False fi = Inr n \<Longrightarrow>
   GetUnixfsNode e p = Inr n"
  by (simp add: GetUnixfsNode_def)

lemma GetUnixfsNode_calls:
  "GetUnixfsNode e p = Inr n \<Longrightarrow> os_Stat e p = Inr fi \<Longrightarrow>
   files_NewSerialFile e p False fi = Inr n"
  by (simp add: GetUnixfsNode_def split: sum.splits)

text \<open>The functions below \<^verbatim>\<open>DownloadFromCid\<close> never consult \<^verbatim>\<open>cid.Parse\<close>.\<close>

lemma SetupPlugins_cid_Parse:
  "SetupPlugins (e\<lparr>cid_Parse := f\<rparr>) p = SetupPlugins e p"
  by (rule ext) (simp add: SetupPlugins_def run_defs split: sum.splits option.splits)

lemma CreateTempRepo_cid_Parse:
  "CreateTempRepo (e\<lparr>cid_Parse := f\<rparr>) = CreateTempRepo e"
  by (rule ext) (simp add: CreateTempRepo_def run_defs Let_def split: sum.splits option.splits)

lemma CreateNode_cid_Parse:
  "CreateNode (e\<lparr>cid_Parse := f\<rparr>) c p = CreateNode e c p"
  by (rule ext) (simp add: CreateNode_def run_defs Let_def split: sum.splits option.splits)

lemma SpawnEphemeral_cid_Parse:
  "SpawnEphemeral (e\<lparr>cid_Parse := f\<rparr>) ctx = SpawnEphemeral e ctx"
  by (simp add: SpawnEphemeral_def SetupPlugins_cid_Parse CreateTempRepo_cid_Parse
      CreateNode_cid_Parse Let_def cong: sum.case_cong option.case_cong)

lemma StartIpfsNode_cid_Parse:
  "StartIpfsNode (e\<lparr>cid_Parse := f\<rparr>) = StartIpfsNode e"
  by (simp add: StartIpfsNode_def SpawnEphemeral_cid_Parse)

lemma DownloadFromCid_parses_stripped:
  assumes "GetCidStrFromString str = Inr r" and "f r = cid_Parse e r"
  shows "DownloadFromCid (e\<lparr>cid_Parse := f\<rparr>) str = DownloadFromCid e str"
  using assms
  by (simp add: DownloadFromCid_def StartIpfsNode_cid_Parse Let_def
      cong: sum.case_cong option.case_cong)

lemma UploadFiles_start_panics:
  "StartIpfsNode e s = (Panics m, s1) \<Longrightarrow> UploadFiles e p s = (Panics m, s1)"
  by (simp add: UploadFiles_def bnd_def)

lemma UploadFiles_ok:
  assumes "StartIpfsNode e s = (Returns (ctx, api, None), s1)"
    and "GetUnixfsNode e p = Inr n" and "os_Stat e p = Inr fi"
    and "unixfs_Add e api ctx (upload_node e p fi n) = Inr ip"
    and "unixfs_Ls e api ctx ip = Inr es"
    and "node_Size e (upload_node e p fi n) = Inr sz"
  shows "UploadFiles e p s =
     (case signal_recv e of
        None \<Rightarrow> (Blocks, s1\<lparr>trace := trace s1 @ publish_events e api ctx (upload_node e p fi n) ip es sz\<rparr>)
      | Some sg \<Rightarrow> (Returns (path_String e ip, None),
           s1\<lparr>trace := trace s1 @ publish_events e api ctx (upload_node e p fi n) ip es sz
                  @ [Received sg, Println ''\<newline>Adios!'', Call_cancel]\<rparr>))"
  using assms
  by (simp add: UploadFiles_def run_defs Let_def range_entries_eq receive_def
      upload_node_def [symmetric] publish_events_def split: option.splits split del: if_split)

lemma UploadFiles_cases:
  "(\<exists>m s'. UploadFiles e p s = (Panics m, s')) \<or>
   (\<exists>api s1 n fi ip es sz.
        StartIpfsNode e s = (Returns (WithCancel Background, api, None), s1)
      \<and> GetUnixfsNode e p = Inr n \<and> os_Stat e p = Inr fi
      \<and> unixfs_Add e api (WithCancel Background) (upload_node e p fi n) = Inr ip
      \<and> unixfs_Ls e api (WithCancel Background) ip = Inr es
      \<and> node_Size e (upload_node e p fi n) = Inr sz)"
proof -
  obtain r s1 where st: "StartIpfsNode e s = (r, s1)"
    and r: "(\<exists>m. r = Panics m) \<or> (\<exists>api. r = Returns (WithCancel Background, api, None))"
    using StartIpfsNode_cases [of e s] by blast
  from r show ?thesis
  proof
    assume "\<exists>m. r = Panics m"
    with st show ?thesis by (auto simp: UploadFiles_start_panics)
  next
    assume "\<exists>api. r = Returns (WithCancel Background, api, None)"
    then obtain api where "r = Returns (WithCancel Background, api, None)" ..
    with st show ?thesis
      by (auto simp: UploadFiles_def run_defs Let_def range_entries_eq
          upload_node_def [symmetric] split: sum.splits option.splits split del: if_split)
  qed
qed

lemma UploadFiles_announces:
  assumes "StartIpfsNode e s = (Returns (ctx, api, None), s1)"
    and "GetUnixfsNode e p = Inr n" and "os_Stat e p = Inr fi"
    and "unixfs_Add e api ctx (upload_node e p fi n) = Inr ip"
  shows "Printf ''Added file to IPFS. Now share this CID with your friend:\<newline>%s\<newline>''
           [S (path_String e ip)] \<in> set (trace (snd (UploadFiles e p s)))"
  using assms
  by (simp add: UploadFiles_def run_defs Let_def range_entries_eq receive_def
      upload_node_def [symmetric] split: sum.splits option.splits split del: if_split)

lemma state_of_dropped_result: "snd (bnd m (\<lambda>_. ret ()) s) = snd (m s)"
  by (simp add: run_defs split: prod.splits outcome.splits)

lemma main_publish: "p \<noteq> [] \<Longrightarrow> main e [] p s = bnd (UploadFiles e p) (\<lambda>_. ret ()) s"
  by (simp add: main_def)

lemma DownloadFromCid_start_panics:
  "StartIpfsNode e s = (Panics m, s1) \<Longrightarrow> DownloadFromCid e str s = (Panics m, s1)"
  by (simp add: DownloadFromCid_def bnd_def)

lemma DownloadFromCid_ok:
  assumes "StartIpfsNode e s = (Returns (ctx, api, None), s1)"
    and "GetCidStrFromString str = Inr r" and "cid_Parse e r = Inr c"
    and "unixfs_Get e api ctx (FromCid c) = Some (Inr root)"
    and "unixfs_Ls e api ctx (FromCid c) = Inr es"
    and "os_MkdirAll e ''Download'' 511 = None"
    and "files_WriteTo e root (filepath_Clean e (''./Download/'' @ r)) = None"
  shows "DownloadFromCid e str s =
     (Returns (''./Download/'' @ r, None, 100),
      s1\<lparr>trace := trace s1 @ fetch_events e api ctx r c root es\<rparr>)"
  using assms
  by (simp add: DownloadFromCid_def run_defs Let_def range_entries_eq fetch_events_def)

lemma DownloadFromCid_blocks:
  assumes "StartIpfsNode e s = (Returns (ctx, api, None), s1)"
    and "GetCidStrFromString str = Inr r" and "cid_Parse e r = Inr c"
    and "unixfs_Get e api ctx (FromCid c) = None"
  shows "DownloadFromCid e str s =
     (Blocks, s1\<lparr>trace := trace s1 @
        [Printf ''Fetching a file from the network with CID %s\<newline>'' [S r],
         Call_Get api ctx (FromCid c)]\<rparr>)"
  using assms by (simp add: DownloadFromCid_def run_defs Let_def)

lemma DownloadFromCid_Get_error:
  assumes "StartIpfsNode e s = (Returns (ctx, api, None), s1)"
    and "GetCidStrFromString str = Inr r" and "cid_Parse e r = Inr c"
    and "unixfs_Get e api ctx (FromCid c) = Some (Inl x)"
  shows "DownloadFromCid e str s =
     (Panics (''error: '' @ x), s1\<lparr>trace := trace s1 @
        [Printf ''Fetching a file from the network with CID %s\<newline>'' [S r],
         Call_Get api ctx (FromCid c), Call_cancel]\<rparr>)"
  using assms by (simp add: DownloadFromCid_def run_defs Let_def Errorf_def)

lemma DownloadFromCid_Parse_error:
  assumes "StartIpfsNode e s = (Returns (ctx, api, None), s1)"
    and "GetCidStrFromString str = Inr r" and "cid_Parse e r = Inl x"
  shows "DownloadFromCid e str s =
     (Panics (''error: '' @ x), s1\<lparr>trace := trace s1 @ [Call_cancel]\<rparr>)"
  using assms by (simp add: DownloadFromCid_def run_defs Let_def Errorf_def)

lemma DownloadFromCid_requests_parsed:
  assumes "StartIpfsNode e s = (Returns (ctx, api, None), s1)"
    and "GetCidStrFromString str = Inr r" and "cid_Parse e r = Inr c"
  shows "\<exists>rest. trace (snd (DownloadFromCid e str s)) =
     trace s1 @ Printf ''Fetching a file from the network with CID %s\<newline>'' [S r]
       # Call_Get api ctx (FromCid c) # rest"
  using assms
  by (simp add: DownloadFromCid_def run_defs Let_def range_entries_eq
      split: sum.splits option.splits)

lemma DownloadFromCid_cases:
  "(\<exists>m s'. DownloadFromCid e str s = (Panics m, s')) \<or>
   (\<exists>api s1 r c.
        StartIpfsNode e s = (Returns (WithCancel Background, api, None), s1)
      \<and> GetCidStrFromString str = Inr r \<and> cid_Parse e r = Inr c
      \<and> (unixfs_Get e api (WithCancel Background) (FromCid c) = None \<or>
         (\<exists>root es.
            unixfs_Get e api (WithCancel Background) (FromCid c) = Some (Inr root)
          \<and> unixfs_Ls e api (WithCancel Background) (FromCid c) = Inr es
          \<and> os_MkdirAll e ''Download'' 511 = None
          \<and> files_WriteTo e root (filepath_Clean e (''./Download/'' @ r)) = None)))"
proof -
  obtain r s1 where st: "StartIpfsNode e s = (r, s1)"
    and r: "(\<exists>m. r = Panics m) \<or> (\<exists>api. r = Returns (WithCancel Background, api, None))"
    using StartIpfsNode_cases [of e s] by blast
  from r show ?thesis
  proof
    assume "\<exists>m. r = Panics m"
    with st show ?thesis by (auto simp: DownloadFromCid_start_panics)
  next
    assume "\<exists>api. r = Returns (WithCancel Background, api, None)"
    then obtain api where "r = Returns (WithCancel Background, api, None)" ..
    with st show ?thesis
      by (auto simp: DownloadFromCid_def run_defs Let_def range_entries_eq
          split: sum.splits option.splits)
  qed
qed

section \<open>Facts about traces\<close>

lemma startup_no_cancel: "list_all startup_event evs \<Longrightarrow> Call_cancel \<notin> set evs"
  by (induction evs) auto

lemma entry_events_no_cancel: "Call_cancel \<notin> set (entry_events n es)"
  by (induction es arbitrary: n) auto

lemma publish_events_no_cancel: "Call_cancel \<notin> set (publish_events e api ctx n ip es sz)"
  by (simp add: publish_events_def entry_events_no_cancel)

lemma added_nodes_append: "added_nodes (xs @ ys) = added_nodes xs @ added_nodes ys"
  by (induction xs rule: added_nodes.induct) simp_all

lemma written_nodes_append: "written_nodes (xs @ ys) = written_nodes xs @ written_nodes ys"
  by (induction xs rule: written_nodes.induct) simp_all

lemma added_nodes_entries: "added_nodes (entry_events k es) = []"
  by (induction es arbitrary: k) simp_all

lemma written_nodes_entries: "written_nodes (entry_events k es) = []"
  by (induction es arbitrary: k) simp_all


lemma UploadFiles_adds:
  assumes "StartIpfsNode e s = (Returns (ctx, api, None), s1)"
    and "GetUnixfsNode e p = Inr n" and "os_Stat e p = Inr fi"
  shows "\<exists>evs. trace (snd (UploadFiles e p s)) = trace s1 @ evs
            \<and> added_nodes evs = [upload_node e p fi n]"
  using assms
  by (simp add: UploadFiles_def run_defs Let_def range_entries_eq receive_def
      upload_node_def [symmetric] added_nodes_append added_nodes_entries
      split: sum.splits option.splits split del: if_split)

lemma DownloadFromCid_writes:
  assumes "StartIpfsNode e s = (Returns (ctx, api, None), s1)"
    and "GetCidStrFromString str = Inr r" and "cid_Parse e r = Inr c"
    and "unixfs_Get e api ctx (FromCid c) = Some (Inr root)"
    and "unixfs_Ls e api ctx (FromCid c) = Inr es"
    and "os_MkdirAll e ''Download'' 511 = None"
  shows "\<exists>evs. trace (snd (DownloadFromCid e str s)) = trace s1 @ evs
            \<and> written_nodes evs = [(root, filepath_Clean e (''./Download/'' @ r))]"
  using assms
  by (simp add: DownloadFromCid_def run_defs Let_def range_entries_eq
      written_nodes_append written_nodes_entries split: sum.splits option.splits)





lemma plugin_loads_append: "plugin_loads (xs @ ys) = plugin_loads xs @ plugin_loads ys"
  by (induction xs rule: plugin_loads.induct) simp_all

lemma SpawnEphemeral_once_set:
  "loadPluginsOnce s \<Longrightarrow>
     plugin_loads (trace (snd (SpawnEphemeral e ctx s))) = plugin_loads (trace s)
   \<and> loadPluginsOnce (snd (SpawnEphemeral e ctx s))"
  by (simp add: SpawnEphemeral_def Once_Do_def CreateTempRepo_def CreateNode_def run_defs
      Let_def plugin_loads_append split: sum.splits option.splits)

lemma SpawnEphemeral_first:
  "\<not> loadPluginsOnce s \<Longrightarrow>
     plugin_loads (trace (snd (SpawnEphemeral e ctx s)))
       = plugin_loads (trace s) @ [filepath_Join e [[], ''plugins'']]
   \<and> loadPluginsOnce (snd (SpawnEphemeral e ctx s))"
  by (simp add: SpawnEphemeral_def Once_Do_def SetupPlugins_def CreateTempRepo_def
      CreateNode_def run_defs Let_def plugin_loads_append split: sum.splits option.splits)

lemma spawn_repeatedly_once_set:
  "loadPluginsOnce s \<Longrightarrow>
     plugin_loads (trace (spawn_repeatedly e ctx k s)) = plugin_loads (trace s)"
  by (induction k arbitrary: s) (simp_all add: SpawnEphemeral_once_set)

lemma spawn_repeatedly_loads:
  "length (plugin_loads (trace (spawn_repeatedly e ctx k init_proc))) = (if k = 0 then 0 else 1)"
proof (cases k)
  case 0
  then show ?thesis by (simp add: init_proc_def)
next
  case (Suc j)
  have n: "\<not> loadPluginsOnce init_proc" by (simp add: init_proc_def)
  from SpawnEphemeral_first [OF n, of e ctx]
  have "plugin_loads (trace (spawn_repeatedly e ctx j (snd (SpawnEphemeral e ctx init_proc))))
      = plugin_loads (trace init_proc) @ [filepath_Join e [[], ''plugins'']]"
    by (simp add: spawn_repeatedly_once_set)
  with Suc show ?thesis by (simp add: init_proc_def)
qed

lemma SpawnEphemeral_later_ignores_plugins:
  "loadPluginsOnce s \<Longrightarrow>
   SpawnEphemeral (e\<lparr>loader_NewPluginLoader := f, plugins_Initialize := g,
       plugins_Inject := h\<rparr>) ctx s = SpawnEphemeral e ctx s"
  by (simp add: SpawnEphemeral_def Once_Do_def CreateTempRepo_def CreateNode_def run_defs
      Let_def split: sum.splits option.splits)

lemma SpawnEphemeral_returns_setup_error:
  "\<not> loadPluginsOnce s \<Longrightarrow> fst (SetupPlugins e [] s) = Returns (Some err) \<Longrightarrow>
   fst (SpawnEphemeral e ctx s) = Returns (Inl err)"
  by (cases "SetupPlugins e [] s")
     (simp add: SpawnEphemeral_def Once_Do_def run_defs Let_def)

section \<open>The example runs\<close>

lemma example_start:
  "StartIpfsNode example_env init_proc =
     (Returns (WithCancel Background, CoreAPI 0, None), example_started)"
  by (simp add: StartIpfsNode_def SpawnEphemeral_def Once_Do_def SetupPlugins_def
      CreateTempRepo_def CreateNode_def run_defs Let_def example_env_def init_proc_def
      example_started_def)

lemma example_answers:
  "GetUnixfsNode example_env p = Inr (File ''hello'')"
  "os_Stat example_env p = Inr \<lparr>IsDir = False\<rparr>"
  "unixfs_Add example_env api ctx n = Inr (FromCid (Cid ''Qm1''))"
  "unixfs_Ls example_env api ctx ip = Inr [\<lparr>Name = ''a.txt''\<rparr>]"
  "node_Size example_env n = Inr 5"
  "unixfs_Get example_env api ctx ip = Some (Inr (Directory [(''a.txt'', File ''hello'')]))"
  "os_MkdirAll example_env d m = None"
  "files_WriteTo example_env n d = None"
  "cid_Parse example_env ''Qm1'' = Inr (Cid ''Qm1'')"
  "path_String example_env (FromCid (Cid ''Qm1'')) = ''/ipfs/Qm1''"
  "signal_recv example_env = Some SIGINT"
  "filepath_Base example_env ''a.txt'' = ''a.txt''"
  "filepath_Clean example_env ''./Download/Qm1'' = ''Download/Qm1''"
  by (simp_all add: example_env_def GetUnixfsNode_def FromCid_def)

lemma example_download:
  "DownloadFromCid example_env ''/ipfs/Qm1'' init_proc =
     (Returns (''./Download/Qm1'', None, 100),
      example_started\<lparr>trace := trace example_started
        @ fetch_events example_env (CoreAPI 0) (WithCancel Background) ''Qm1'' (Cid ''Qm1'')
            (Directory [(''a.txt'', File ''hello'')]) [\<lparr>Name = ''a.txt''\<rparr>]\<rparr>)"
proof -
  have "CHR ''/'' \<notin> set ''Qm1''" by simp
  then have "GetCidStrFromString (''/ipfs/'' @ ''Qm1'') = Inr (Trim ''Qm1'' cutset_ws)"
    by (rule GetCidStrFromString_ipfs)
  moreover have "Trim ''Qm1'' cutset_ws = ''Qm1''"
    by (rule Trim_clean) (simp add: cutset_ws_def)
  ultimately have r: "GetCidStrFromString ''/ipfs/Qm1'' = Inr ''Qm1''" by simp
  show ?thesis
    using DownloadFromCid_ok [OF example_start r example_answers(9) example_answers(6)
          example_answers(4) example_answers(7) example_answers(8)]
    by simp
qed



lemma failing_start:
  "StartIpfsNode failing_env init_proc =
     (Returns (WithCancel Background, CoreAPI 0, None), example_started)"
  by (simp add: StartIpfsNode_def SpawnEphemeral_def Once_Do_def SetupPlugins_def
      CreateTempRepo_def CreateNode_def run_defs Let_def example_env_def init_proc_def
      example_started_def failing_env_def)

lemma failing_upload:
  "fst (UploadFiles failing_env ''a.txt'' init_proc) =
     Panics ''error: no such file or directory''"
  by (simp add: UploadFiles_def bnd_def failing_start)
     (simp add: failing_env_def GetUnixfsNode_def panic_def Errorf_def)

lemma failing_download:
  "fst (DownloadFromCid failing_env ''Qm1'' init_proc) = Panics ''error: permission denied''"
proof -
  have "CHR ''/'' \<notin> set ''Qm1''" by simp
  then have "LastIndex ''Qm1'' (CHR ''/'') = - 1" by (rule LastIndex_absent)
  then have "GetCidStrFromString ''Qm1'' = Inr (Trim ''Qm1'' cutset_ws)"
    by (simp add: GetCidStrFromString_total)
  moreover have "Trim ''Qm1'' cutset_ws = ''Qm1''"
    by (rule Trim_clean) (simp add: cutset_ws_def)
  ultimately have r: "GetCidStrFromString ''Qm1'' = Inr ''Qm1''" by simp
  show ?thesis
    by (simp add: DownloadFromCid_def bnd_def failing_start r)
       (simp add: failing_env_def example_env_def run_defs Let_def Errorf_def)
qed

lemma quiet_start:
  "StartIpfsNode quiet_env init_proc =
     (Returns (WithCancel Background, CoreAPI 0, None), example_started)"
  by (simp add: StartIpfsNode_def SpawnEphemeral_def Once_Do_def SetupPlugins_def
      CreateTempRepo_def CreateNode_def run_defs Let_def example_env_def init_proc_def
      example_started_def quiet_env_def)

lemma quiet_answers:
  "GetUnixfsNode quiet_env p = Inr (File ''hello'')"
  "os_Stat quiet_env p = Inr \<lparr>IsDir = False\<rparr>"
  "unixfs_Add quiet_env api ctx n = Inr (FromCid (Cid ''Qm1''))"
  "unixfs_Ls quiet_env api ctx ip = Inr [\<lparr>Name = ''a.txt''\<rparr>]"
  "node_Size quiet_env n = Inr 5"
  "signal_recv quiet_env = None"
  by (simp_all add: quiet_env_def example_env_def GetUnixfsNode_def)

lemma single_file_start:
  "StartIpfsNode single_file_env init_proc =
     (Returns (WithCancel Background, CoreAPI 0, None), example_started)"
  by (simp add: StartIpfsNode_def SpawnEphemeral_def Once_Do_def SetupPlugins_def
      CreateTempRepo_def CreateNode_def run_defs Let_def example_env_def init_proc_def
      example_started_def single_file_env_def)

lemma single_file_answers:
  "cid_Parse single_file_env ''Qm1'' = Inr (Cid ''Qm1'')"
  "unixfs_Get single_file_env api ctx ip = Some (Inr (File ''hello''))"
  "unixfs_Ls single_file_env api ctx ip = Inr [\<lparr>Name = ''a.txt''\<rparr>]"
  "os_MkdirAll single_file_env d m = None"
  "files_WriteTo single_file_env n d = None"
  "filepath_Clean single_file_env ''./Download/Qm1'' = ''Download/Qm1''"
  by (simp_all add: single_file_env_def example_env_def)

lemma no_providers_start:
  "StartIpfsNode no_providers_env init_proc =
     (Returns (WithCancel Background, CoreAPI 0, None), example_started)"
  by (simp add: StartIpfsNode_def SpawnEphemeral_def Once_Do_def SetupPlugins_def
      CreateTempRepo_def CreateNode_def run_defs Let_def example_env_def init_proc_def
      example_started_def no_providers_env_def)

lemma get_error_start:
  "StartIpfsNode get_error_env init_proc =
     (Returns (WithCancel Background, CoreAPI 0, None), example_started)"
  by (simp add: StartIpfsNode_def SpawnEphemeral_def Once_Do_def SetupPlugins_def
      CreateTempRepo_def CreateNode_def run_defs Let_def example_env_def init_proc_def
      example_started_def get_error_env_def)

lemma no_providers_answers:
  "cid_Parse no_providers_env ''Qm1'' = Inr (Cid ''Qm1'')"
  "unixfs_Get no_providers_env api (WithCancel Background) ip = None"
  "unixfs_Get no_providers_env api (WithDeadline 2 Background) ip = Some (Inl ''NoProvidersFound'')"
  by (simp_all add: no_providers_env_def example_env_def)

lemma get_error_answers:
  "cid_Parse get_error_env ''Qm1'' = Inr (Cid ''Qm1'')"
  "unixfs_Get get_error_env api ctx ip = Some (Inl ''NoProvidersFound'')"
  by (simp_all add: get_error_env_def example_env_def)

lemma broken_first:
  "SpawnEphemeral broken_plugins_env (WithCancel Background) init_proc =
     (Returns (Inl ''error loading plugins: boom''),
      \<lparr>loadPluginsOnce = True, trace = [Call_NewPluginLoader ''plugins'']\<rparr>)"
  by (simp add: SpawnEphemeral_def Once_Do_def SetupPlugins_def run_defs Let_def Errorf_def
      broken_plugins_env_def example_env_def init_proc_def)

lemma broken_second:
  "fst (SpawnEphemeral broken_plugins_env (WithCancel Background)
          \<lparr>loadPluginsOnce = True, trace = [Call_NewPluginLoader ''plugins'']\<rparr>)
     = Returns (Inr (CoreAPI 0, IpfsNode 0))"
  by (simp add: SpawnEphemeral_def Once_Do_def CreateTempRepo_def CreateNode_def run_defs
      Let_def broken_plugins_env_def example_env_def)

lemma broken_never_starts: "\<not> node_starts broken_plugins_env init_proc api"
  by (simp add: node_starts_def broken_plugins_env_def example_env_def init_proc_def)

lemma broken_start:
  "fst (StartIpfsNode broken_plugins_env init_proc)
     = Panics ''failed to spawn ephemeral node: error loading plugins: boom''"
  by (simp add: StartIpfsNode_def SpawnEphemeral_def Once_Do_def SetupPlugins_def
      run_defs Let_def Errorf_def broken_plugins_env_def example_env_def init_proc_def)

lemma broken_upload:
  "fst (UploadFiles broken_plugins_env ''a.txt'' init_proc)
     = Panics ''failed to spawn ephemeral node: error loading plugins: boom''"
  using broken_start
  by (cases "StartIpfsNode broken_plugins_env init_proc") (simp add: UploadFiles_def bnd_def)

lemma broken_download:
  "fst (DownloadFromCid broken_plugins_env ''Qm1'' init_proc)
     = Panics ''failed to spawn ephemeral node: error loading plugins: boom''"
  using broken_start
  by (cases "StartIpfsNode broken_plugins_env init_proc") (simp add: DownloadFromCid_def bnd_def)

lemma directory_start:
  "StartIpfsNode directory_env init_proc =
     (Returns (WithCancel Background, CoreAPI 0, None), example_started)"
  by (simp add: StartIpfsNode_def SpawnEphemeral_def Once_Do_def SetupPlugins_def
      CreateTempRepo_def CreateNode_def run_defs Let_def example_env_def init_proc_def
      example_started_def directory_env_def)

lemma directory_answers:
  "os_Stat directory_env p = Inr \<lparr>IsDir = True\<rparr>"
  "files_NewSerialFile directory_env p b st
     = Inr (Directory [(''a.txt'', File ''hello''), (''b.txt'', File ''bye'')])"
  by (simp_all add: directory_env_def example_env_def)




section \<open>The claims\<close>





text \<open>
  Claim C3 as stated fails: with a library that reports the missing providers at the
  deadline of the context it is given (here for a deadline of 2), the fetch of an
  identifier that no peer provides never returns and the process never exits, because
  the context \<^verbatim>\<open>DownloadFromCid\<close> passes has no deadline.
\<close>

theorem fetch_without_providers_never_returns:
  "unixfs_Get no_providers_env (CoreAPI 0) (WithDeadline 2 Background) (FromCid (Cid ''Qm1''))
      = Some (Inl ''NoProvidersFound'')
   \<and> fst (DownloadFromCid no_providers_env ''Qm1'' init_proc) = Blocks
   \<and> exit_status (fst (main no_providers_env ''Qm1'' [] init_proc)) = None"
proof -
  from DownloadFromCid_blocks [OF no_providers_start strip_Qm1 no_providers_answers(1)
      no_providers_answers(2)]
  have b: "fst (DownloadFromCid no_providers_env ''Qm1'' init_proc) = Blocks" by simp
  then have "fst (main no_providers_env ''Qm1'' [] init_proc) = Blocks"
    by (cases "DownloadFromCid no_providers_env ''Qm1'' init_proc") (simp add: main_def run_defs)
  with b no_providers_answers(3) show ?thesis by simp
qed

text \<open>
  Claim C3, amended. \<^verbatim>\<open>DownloadFromCid\<close> takes no deadline and sets none: the context it
  passes to \<^verbatim>\<open>Get\<close> is the one \<^verbatim>\<open>StartIpfsNode\<close> made, which has no deadline, and
  \<open>cancel\<close> is not called before \<^verbatim>\<open>Get\<close> is over. While \<^verbatim>\<open>Get\<close> does not return,
  \<^verbatim>\<open>DownloadFromCid\<close> does not return. When \<^verbatim>\<open>Get\<close> returns an error, \<^verbatim>\<open>DownloadFromCid\<close>
  does not return it: it panics with \<open>error: \<close> and the message, after the deferred
  \<open>cancel\<close>.
\<close>

theorem fetch_has_no_deadline:
  "StartIpfsNode e s = (Returns (ctx, api, err), s1)
     \<and> GetCidStrFromString str = Inr r \<and> cid_Parse e r = Inr c
   \<longrightarrow> Deadline ctx = None
     \<and> (unixfs_Get e api ctx (FromCid c) = None \<longrightarrow>
          DownloadFromCid e str s =
            (Blocks, s1\<lparr>trace := trace s1 @
               [Printf ''Fetching a file from the network with CID %s\<newline>'' [S r],
                Call_Get api ctx (FromCid c)]\<rparr>))
     \<and> (unixfs_Get e api ctx (FromCid c) = Some (Inl x) \<longrightarrow>
          DownloadFromCid e str s =
            (Panics (''error: '' @ x), s1\<lparr>trace := trace s1 @
               [Printf ''Fetching a file from the network with CID %s\<newline>'' [S r],
                Call_Get api ctx (FromCid c), Call_cancel]\<rparr>))"
proof (intro impI)
  assume a: "StartIpfsNode e s = (Returns (ctx, api, err), s1)
     \<and> GetCidStrFromString str = Inr r \<and> cid_Parse e r = Inr c"
  with StartIpfsNode_cases [of e s] have ctx: "ctx = WithCancel Background" and err: "err = None"
    by auto
  from a err have st: "StartIpfsNode e s = (Returns (ctx, api, None), s1)"
    and r: "GetCidStrFromString str = Inr r" and c: "cid_Parse e r = Inr c" by simp_all
  from ctx have "Deadline ctx = None" by simp
  with DownloadFromCid_blocks [OF st r c] DownloadFromCid_Get_error [OF st r c]
  show "Deadline ctx = None
     \<and> (unixfs_Get e api ctx (FromCid c) = None \<longrightarrow>
          DownloadFromCid e str s =
            (Blocks, s1\<lparr>trace := trace s1 @
               [Printf ''Fetching a file from the network with CID %s\<newline>'' [S r],
                Call_Get api ctx (FromCid c)]\<rparr>))
     \<and> (unixfs_Get e api ctx (FromCid c) = Some (Inl x) \<longrightarrow>
          DownloadFromCid e str s =
            (Panics (''error: '' @ x), s1\<lparr>trace := trace s1 @
               [Printf ''Fetching a file from the network with CID %s\<newline>'' [S r],
                Call_Get api ctx (FromCid c), Call_cancel]\<rparr>))"
    by blast
qed

theorem fetch_has_no_deadline_witness:
  "StartIpfsNode no_providers_env init_proc
      = (Returns (WithCancel Background, CoreAPI 0, None), example_started)
   \<and> GetCidStrFromString ''Qm1'' = Inr ''Qm1''
   \<and> cid_Parse no_providers_env ''Qm1'' = Inr (Cid ''Qm1'')
   \<and> Deadline (WithCancel Background) = None
   \<and> unixfs_Get no_providers_env (CoreAPI 0) (WithCancel Background) (FromCid (Cid ''Qm1'')) = None
   \<and> DownloadFromCid no_providers_env ''Qm1'' init_proc =
        (Blocks, example_started\<lparr>trace := trace example_started @
           [Printf ''Fetching a file from the network with CID %s\<newline>'' [S ''Qm1''],
            Call_Get (CoreAPI 0) (WithCancel Background) (FromCid (Cid ''Qm1''))]\<rparr>)
   \<and> unixfs_Get get_error_env (CoreAPI 0) (WithCancel Background) (FromCid (Cid ''Qm1''))
        = Some (Inl ''NoProvidersFound'')
   \<and> DownloadFromCid get_error_env ''Qm1'' init_proc =
        (Panics ''error: NoProvidersFound'', example_started\<lparr>trace := trace example_started @
           [Printf ''Fetching a file from the network with CID %s\<newline>'' [S ''Qm1''],
            Call_Get (CoreAPI 0) (WithCancel Background) (FromCid (Cid ''Qm1'')),
            Call_cancel]\<rparr>)"
proof -
  from fetch_has_no_deadline [where e = no_providers_env and s = init_proc
      and ctx = "WithCancel Background" and api = "CoreAPI 0" and err = None
      and ?s1.0 = example_started and str = "''Qm1''" and r = "''Qm1''" and c = "Cid ''Qm1''"]
    no_providers_start strip_Qm1 no_providers_answers(1) no_providers_answers(2)
  have 1: "Deadline (WithCancel Background) = None
     \<and> DownloadFromCid no_providers_env ''Qm1'' init_proc =
        (Blocks, example_started\<lparr>trace := trace example_started @
           [Printf ''Fetching a file from the network with CID %s\<newline>'' [S ''Qm1''],
            Call_Get (CoreAPI 0) (WithCancel Background) (FromCid (Cid ''Qm1''))]\<rparr>)"
    by blast
  from fetch_has_no_deadline [where e = get_error_env and s = init_proc
      and ctx = "WithCancel Background" and api = "CoreAPI 0" and err = None
      and ?s1.0 = example_started and str = "''Qm1''" and r = "''Qm1''" and c = "Cid ''Qm1''"
      and x = "''NoProvidersFound''"]
    get_error_start strip_Qm1 get_error_answers(1) get_error_answers(2)
  have "DownloadFromCid get_error_env ''Qm1'' init_proc =
        (Panics (''error: '' @ ''NoProvidersFound''), example_started\<lparr>trace := trace example_started @
           [Printf ''Fetching a file from the network with CID %s\<newline>'' [S ''Qm1''],
            Call_Get (CoreAPI 0) (WithCancel Background) (FromCid (Cid ''Qm1'')),
            Call_cancel]\<rparr>)"
    by blast
  then have 2: "DownloadFromCid get_error_env ''Qm1'' init_proc =
        (Panics ''error: NoProvidersFound'', example_started\<lparr>trace := trace example_started @
           [Printf ''Fetching a file from the network with CID %s\<newline>'' [S ''Qm1''],
            Call_Get (CoreAPI 0) (WithCancel Background) (FromCid (Cid ''Qm1'')),
            Call_cancel]\<rparr>)"
    by simp
  from 1 2 no_providers_start strip_Qm1 no_providers_answers(1) no_providers_answers(2)
    get_error_answers(2)
  show ?thesis by blast
qed

text \<open>
  Claim C4. For every string \<open>s\<close>, \<^verbatim>\<open>GetCidStrFromString(s)\<close> returns (it never indexes out
  of range, the empty string included) the part \<open>r\<close> of \<open>s\<close> characterised as follows:
  \<open>tail\<close> is what follows the last \<open>/\<close> of \<open>s\<close> (all of \<open>s\<close> when it has none), and \<open>r\<close> is
  \<open>tail\<close> without its leading and trailing spaces (0x20), carriage returns (0x0D) and line
  feeds (0x0A): only these bytes are removed, and none is left at either end. For
  \<open>/ipfs/<cid>\<close>, where \<open><cid>\<close> has no \<open>/\<close> and neither starts nor ends with one of these
  bytes, the result is \<open><cid>\<close>. The download path parses exactly \<open>r\<close> as the CID: once
  the node runs, an error of \<^verbatim>\<open>cid.Parse\<close> at \<open>r\<close> is the panic of \<^verbatim>\<open>DownloadFromCid(s)\<close>;
  the identifier \<^verbatim>\<open>cid.Parse\<close> returns for \<open>r\<close> is the one whose path is requested from
  \<^verbatim>\<open>Get\<close>, right after the announcement that shows \<open>r\<close>; and changing \<^verbatim>\<open>cid.Parse\<close>
  anywhere but at \<open>r\<close> changes nothing of the run.
\<close>

theorem GetCidStrFromString_strips:
  "(\<exists>tail l r t.
      GetCidStrFromString s = Inr r
    \<and> ((CHR ''/'' \<notin> set s \<and> tail = s) \<or>
       (\<exists>p. s = p @ [CHR ''/''] @ tail \<and> CHR ''/'' \<notin> set tail))
    \<and> tail = l @ r @ t
    \<and> set l \<subseteq> {CHR '' '', CHR 0x0D, CHR 0x0A} \<and> set t \<subseteq> {CHR '' '', CHR 0x0D, CHR 0x0A}
    \<and> (r \<noteq> [] \<longrightarrow> hd r \<notin> {CHR '' '', CHR 0x0D, CHR 0x0A}
                  \<and> last r \<notin> {CHR '' '', CHR 0x0D, CHR 0x0A})
    \<and> (\<forall>e st ctx api s1.
          StartIpfsNode e st = (Returns (ctx, api, None), s1) \<longrightarrow>
            (\<forall>x. cid_Parse e r = Inl x \<longrightarrow>
               DownloadFromCid e s st =
                 (Panics (''error: '' @ x), s1\<lparr>trace := trace s1 @ [Call_cancel]\<rparr>))
          \<and> (\<forall>c. cid_Parse e r = Inr c \<longrightarrow>
               (\<exists>rest. trace (snd (DownloadFromCid e s st)) =
                  trace s1 @ Printf ''Fetching a file from the network with CID %s\<newline>'' [S r]
                    # Call_Get api ctx (FromCid c) # rest)))
    \<and> (\<forall>e f. f r = cid_Parse e r \<longrightarrow>
          DownloadFromCid (e\<lparr>cid_Parse := f\<rparr>) s = DownloadFromCid e s))
   \<and> (CHR ''/'' \<notin> set c
       \<and> (c \<noteq> [] \<longrightarrow> hd c \<notin> {CHR '' '', CHR 0x0D, CHR 0x0A}
                    \<and> last c \<notin> {CHR '' '', CHR 0x0D, CHR 0x0A})
        \<longrightarrow> GetCidStrFromString (''/ipfs/'' @ c) = Inr c)"
proof
  let ?ws = "{CHR '' '', CHR 0x0D, CHR 0x0A}"
  let ?tail = "drop (nat (LastIndex s (CHR ''/'') + 1)) s"
  let ?r = "Trim ?tail cutset_ws"
  have r: "GetCidStrFromString s = Inr ?r" by (rule GetCidStrFromString_total)
  obtain l t where lt: "?tail = l @ ?r @ t" "set l \<subseteq> ?ws" "set t \<subseteq> ?ws"
    using Trim_split [of ?tail cutset_ws] unfolding set_cutset_ws by blast
  have e: "?r \<noteq> [] \<longrightarrow> hd ?r \<notin> ?ws \<and> last ?r \<notin> ?ws"
    using Trim_ends [of ?tail cutset_ws] unfolding set_cutset_ws by blast
  have p: "\<forall>e st ctx api s1.
          StartIpfsNode e st = (Returns (ctx, api, None), s1) \<longrightarrow>
            (\<forall>x. cid_Parse e ?r = Inl x \<longrightarrow>
               DownloadFromCid e s st =
                 (Panics (''error: '' @ x), s1\<lparr>trace := trace s1 @ [Call_cancel]\<rparr>))
          \<and> (\<forall>c. cid_Parse e ?r = Inr c \<longrightarrow>
               (\<exists>rest. trace (snd (DownloadFromCid e s st)) =
                  trace s1 @ Printf ''Fetching a file from the network with CID %s\<newline>'' [S ?r]
                    # Call_Get api ctx (FromCid c) # rest))"
    using DownloadFromCid_Parse_error [OF _ r] DownloadFromCid_requests_parsed [OF _ r]
    by blast
  have d: "\<forall>e f. f ?r = cid_Parse e ?r \<longrightarrow>
          DownloadFromCid (e\<lparr>cid_Parse := f\<rparr>) s = DownloadFromCid e s"
    using DownloadFromCid_parses_stripped [OF r] by blast
  from r after_last_slash [of s] lt e p d
  show "\<exists>tail l r t.
      GetCidStrFromString s = Inr r
    \<and> ((CHR ''/'' \<notin> set s \<and> tail = s) \<or>
       (\<exists>p. s = p @ [CHR ''/''] @ tail \<and> CHR ''/'' \<notin> set tail))
    \<and> tail = l @ r @ t
    \<and> set l \<subseteq> ?ws \<and> set t \<subseteq> ?ws
    \<and> (r \<noteq> [] \<longrightarrow> hd r \<notin> ?ws \<and> last r \<notin> ?ws)
    \<and> (\<forall>e st ctx api s1.
          StartIpfsNode e st = (Returns (ctx, api, None), s1) \<longrightarrow>
            (\<forall>x. cid_Parse e r = Inl x \<longrightarrow>
               DownloadFromCid e s st =
                 (Panics (''error: '' @ x), s1\<lparr>trace := trace s1 @ [Call_cancel]\<rparr>))
          \<and> (\<forall>c. cid_Parse e r = Inr c \<longrightarrow>
               (\<exists>rest. trace (snd (DownloadFromCid e s st)) =
                  trace s1 @ Printf ''Fetching a file from the network with CID %s\<newline>'' [S r]
                    # Call_Get api ctx (FromCid c) # rest)))
    \<and> (\<forall>e f. f r = cid_Parse e r \<longrightarrow>
          DownloadFromCid (e\<lparr>cid_Parse := f\<rparr>) s = DownloadFromCid e s)"
    by blast
next
  let ?ws = "{CHR '' '', CHR 0x0D, CHR 0x0A}"
  show "CHR ''/'' \<notin> set c \<and> (c \<noteq> [] \<longrightarrow> hd c \<notin> ?ws \<and> last c \<notin> ?ws)
        \<longrightarrow> GetCidStrFromString (''/ipfs/'' @ c) = Inr c"
  proof
    assume h: "CHR ''/'' \<notin> set c \<and> (c \<noteq> [] \<longrightarrow> hd c \<notin> ?ws \<and> last c \<notin> ?ws)"
    then have "GetCidStrFromString (''/ipfs/'' @ c) = Inr (Trim c cutset_ws)"
      by (intro GetCidStrFromString_ipfs) simp
    moreover from h have "Trim c cutset_ws = c"
      by (intro Trim_clean) (simp add: set_cutset_ws)
    ultimately show "GetCidStrFromString (''/ipfs/'' @ c) = Inr c" by simp
  qed
qed

theorem GetCidStrFromString_strips_witness:
  "GetCidStrFromString (''/ipfs/ Qm1 '' @ [CHR 0x0D, CHR 0x0A]) = Inr ''Qm1''
   \<and> StartIpfsNode example_env init_proc
        = (Returns (WithCancel Background, CoreAPI 0, None), example_started)
   \<and> cid_Parse example_env ''Qm1'' = Inr (Cid ''Qm1'')
   \<and> (\<exists>rest. trace (snd (DownloadFromCid example_env
                  (''/ipfs/ Qm1 '' @ [CHR 0x0D, CHR 0x0A]) init_proc)) =
          trace example_started
            @ Printf ''Fetching a file from the network with CID %s\<newline>'' [S ''Qm1'']
            # Call_Get (CoreAPI 0) (WithCancel Background) (FromCid (Cid ''Qm1'')) # rest)
   \<and> Inr (Cid ''Qm1'') = cid_Parse example_env ''Qm1''
   \<and> DownloadFromCid (example_env\<lparr>cid_Parse := (\<lambda>str. Inr (Cid ''Qm1''))\<rparr>)
          (''/ipfs/ Qm1 '' @ [CHR 0x0D, CHR 0x0A])
        = DownloadFromCid example_env (''/ipfs/ Qm1 '' @ [CHR 0x0D, CHR 0x0A])
   \<and> GetCidStrFromString ''/ipfs/ '' = Inr []
   \<and> cid_Parse example_env [] = Inl ''invalid cid''
   \<and> DownloadFromCid example_env ''/ipfs/ '' init_proc =
        (Panics ''error: invalid cid'',
         example_started\<lparr>trace := trace example_started @ [Call_cancel]\<rparr>)
   \<and> GetCidStrFromString [] = Inr []
   \<and> CHR ''/'' \<notin> set ''Qm1''
   \<and> hd ''Qm1'' \<notin> {CHR '' '', CHR 0x0D, CHR 0x0A}
   \<and> last ''Qm1'' \<notin> {CHR '' '', CHR 0x0D, CHR 0x0A}
   \<and> GetCidStrFromString ''/ipfs/Qm1'' = Inr ''Qm1''"
proof -
  let ?padded = "''/ipfs/ Qm1 '' @ [CHR 0x0D, CHR 0x0A]"
  have pq: "cid_Parse example_env ''Qm1'' = Inr (Cid ''Qm1'')"
    and pe: "cid_Parse example_env [] = Inl ''invalid cid''"
    by (simp_all add: example_env_def)
  from GetCidStrFromString_strips [of ?padded, THEN conjunct1]
  obtain r where r: "GetCidStrFromString ?padded = Inr r"
    and a': "\<forall>e st ctx api s1.
          StartIpfsNode e st = (Returns (ctx, api, None), s1) \<longrightarrow>
            (\<forall>x. cid_Parse e r = Inl x \<longrightarrow>
               DownloadFromCid e ?padded st =
                 (Panics (''error: '' @ x), s1\<lparr>trace := trace s1 @ [Call_cancel]\<rparr>))
          \<and> (\<forall>c. cid_Parse e r = Inr c \<longrightarrow>
               (\<exists>rest. trace (snd (DownloadFromCid e ?padded st)) =
                  trace s1 @ Printf ''Fetching a file from the network with CID %s\<newline>'' [S r]
                    # Call_Get api ctx (FromCid c) # rest))"
    and b': "\<forall>e f. f r = cid_Parse e r \<longrightarrow>
          DownloadFromCid (e\<lparr>cid_Parse := f\<rparr>) ?padded = DownloadFromCid e ?padded"
    by blast
  from r have rq: "r = ''Qm1''" unfolding strip_padded by simp
  from a' have a: "\<forall>e st ctx api s1.
          StartIpfsNode e st = (Returns (ctx, api, None), s1) \<longrightarrow>
            (\<forall>c. cid_Parse e ''Qm1'' = Inr c \<longrightarrow>
               (\<exists>rest. trace (snd (DownloadFromCid e ?padded st)) =
                  trace s1 @ Printf ''Fetching a file from the network with CID %s\<newline>'' [S ''Qm1'']
                    # Call_Get api ctx (FromCid c) # rest))"
    unfolding rq by blast
  from b' have b: "\<forall>e f. f ''Qm1'' = cid_Parse e ''Qm1'' \<longrightarrow>
          DownloadFromCid (e\<lparr>cid_Parse := f\<rparr>) ?padded = DownloadFromCid e ?padded"
    unfolding rq .
  from a example_start pq
  have 1: "\<exists>rest. trace (snd (DownloadFromCid example_env ?padded init_proc)) =
          trace example_started
            @ Printf ''Fetching a file from the network with CID %s\<newline>'' [S ''Qm1'']
            # Call_Get (CoreAPI 0) (WithCancel Background) (FromCid (Cid ''Qm1'')) # rest"
    by blast
  from b pq
  have 2: "DownloadFromCid (example_env\<lparr>cid_Parse := (\<lambda>str. Inr (Cid ''Qm1''))\<rparr>) ?padded
        = DownloadFromCid example_env ?padded"
    by simp
  from GetCidStrFromString_strips [of "''/ipfs/ ''", THEN conjunct1]
  obtain r0 where r0: "GetCidStrFromString ''/ipfs/ '' = Inr r0"
    and c': "\<forall>e st ctx api s1.
          StartIpfsNode e st = (Returns (ctx, api, None), s1) \<longrightarrow>
            (\<forall>x. cid_Parse e r0 = Inl x \<longrightarrow>
               DownloadFromCid e ''/ipfs/ '' st =
                 (Panics (''error: '' @ x), s1\<lparr>trace := trace s1 @ [Call_cancel]\<rparr>))
          \<and> (\<forall>c. cid_Parse e r0 = Inr c \<longrightarrow>
               (\<exists>rest. trace (snd (DownloadFromCid e ''/ipfs/ '' st)) =
                  trace s1 @ Printf ''Fetching a file from the network with CID %s\<newline>'' [S r0]
                    # Call_Get api ctx (FromCid c) # rest))"
    by blast
  from r0 have r0e: "r0 = []" unfolding strip_blank by simp
  from c' have "\<forall>e st ctx api s1.
          StartIpfsNode e st = (Returns (ctx, api, None), s1) \<longrightarrow>
            (\<forall>x. cid_Parse e [] = Inl x \<longrightarrow>
               DownloadFromCid e ''/ipfs/ '' st =
                 (Panics (''error: '' @ x), s1\<lparr>trace := trace s1 @ [Call_cancel]\<rparr>))"
    unfolding r0e by blast
  with example_start pe
  have "DownloadFromCid example_env ''/ipfs/ '' init_proc =
        (Panics (''error: '' @ ''invalid cid''),
         example_started\<lparr>trace := trace example_started @ [Call_cancel]\<rparr>)"
    by blast
  then have 3: "DownloadFromCid example_env ''/ipfs/ '' init_proc =
        (Panics ''error: invalid cid'',
         example_started\<lparr>trace := trace example_started @ [Call_cancel]\<rparr>)"
    by simp
  have h: "CHR ''/'' \<notin> set ''Qm1'' \<and> hd ''Qm1'' \<notin> {CHR '' '', CHR 0x0D, CHR 0x0A}
      \<and> last ''Qm1'' \<notin> {CHR '' '', CHR 0x0D, CHR 0x0A}"
    by simp
  with GetCidStrFromString_strips [of _ "''Qm1''"]
  have 4: "GetCidStrFromString ''/ipfs/Qm1'' = Inr ''Qm1''" by simp
  from strip_padded example_start pq 1 2 strip_blank pe 3 strip_empty h 4
  show ?thesis by simp
qed

text \<open>
  Claim C5. Whenever \<^verbatim>\<open>DownloadFromCid\<close> returns, the path it returns is
  \<open>./Download/<c>\<close>, where \<open><c>\<close> is the stripped CID string that \<^verbatim>\<open>cid.Parse\<close>
  accepted; before that, \<^verbatim>\<open>os.MkdirAll("Download", 0o777)\<close> has succeeded (it creates the
  directory when it is absent) and \<^verbatim>\<open>files.WriteTo\<close> has written the root node that
  \<^verbatim>\<open>Get\<close> returned to \<^verbatim>\<open>filepath.Clean\<close> of that same path, with success. The trace from
  the start of the node on is exactly: the announcement, \<^verbatim>\<open>Get\<close>, \<^verbatim>\<open>Ls\<close>, one line per
  entry, \<^verbatim>\<open>MkdirAll\<close>, \<^verbatim>\<open>WriteTo\<close>, the report of the path, the deferred \<open>cancel\<close>.
\<close>

theorem DownloadFromCid_output_location:
  "DownloadFromCid e str s = (Returns (outputPath, err, progress), s') \<Longrightarrow>
   \<exists>r c api s1 root es.
       GetCidStrFromString str = Inr r \<and> cid_Parse e r = Inr c
     \<and> outputPath = ''./Download/'' @ r
     \<and> StartIpfsNode e s = (Returns (WithCancel Background, api, None), s1)
     \<and> unixfs_Get e api (WithCancel Background) (FromCid c) = Some (Inr root)
     \<and> unixfs_Ls e api (WithCancel Background) (FromCid c) = Inr es
     \<and> os_MkdirAll e ''Download'' 511 = None
     \<and> files_WriteTo e root (filepath_Clean e outputPath) = None
     \<and> trace s' = trace s1
          @ [Printf ''Fetching a file from the network with CID %s\<newline>'' [S r],
             Call_Get api (WithCancel Background) (FromCid c),
             Call_Ls api (WithCancel Background) (FromCid c)]
          @ entry_events 0 es
          @ [Call_MkdirAll ''Download'' 511,
             Call_WriteTo root (filepath_Clean e outputPath),
             Printf ''Wrote the files to %s\<newline>'' [S outputPath],
             Call_cancel]"
proof -
  assume run: "DownloadFromCid e str s = (Returns (outputPath, err, progress), s')"
  from DownloadFromCid_cases [of e str s] run
  obtain api s1 r c where st: "StartIpfsNode e s = (Returns (WithCancel Background, api, None), s1)"
    and r: "GetCidStrFromString str = Inr r" and c: "cid_Parse e r = Inr c"
    and g: "unixfs_Get e api (WithCancel Background) (FromCid c) = None \<or>
         (\<exists>root es.
            unixfs_Get e api (WithCancel Background) (FromCid c) = Some (Inr root)
          \<and> unixfs_Ls e api (WithCancel Background) (FromCid c) = Inr es
          \<and> os_MkdirAll e ''Download'' 511 = None
          \<and> files_WriteTo e root (filepath_Clean e (''./Download/'' @ r)) = None)"
    by auto
  from g run DownloadFromCid_blocks [OF st r c]
  obtain root es where ok:
      "unixfs_Get e api (WithCancel Background) (FromCid c) = Some (Inr root)"
      "unixfs_Ls e api (WithCancel Background) (FromCid c) = Inr es"
      "os_MkdirAll e ''Download'' 511 = None"
      "files_WriteTo e root (filepath_Clean e (''./Download/'' @ r)) = None"
    by auto
  from DownloadFromCid_ok [OF st r c ok] run
  have "outputPath = ''./Download/'' @ r"
    and "s' = s1\<lparr>trace := trace s1 @ fetch_events e api (WithCancel Background) r c root es\<rparr>"
    by simp_all
  with st r c ok show ?thesis
    by (simp add: fetch_events_def)
qed

theorem DownloadFromCid_output_location_witness:
  "DownloadFromCid example_env ''/ipfs/Qm1'' init_proc =
     (Returns (''./Download/Qm1'', None, 100),
      example_started\<lparr>trace := trace example_started
        @ fetch_events example_env (CoreAPI 0) (WithCancel Background) ''Qm1'' (Cid ''Qm1'')
            (Directory [(''a.txt'', File ''hello'')]) [\<lparr>Name = ''a.txt''\<rparr>]\<rparr>)
   \<and> (\<exists>r c api s1 root es.
       GetCidStrFromString ''/ipfs/Qm1'' = Inr r \<and> cid_Parse example_env r = Inr c
     \<and> ''./Download/Qm1'' = ''./Download/'' @ r
     \<and> StartIpfsNode example_env init_proc = (Returns (WithCancel Background, api, None), s1)
     \<and> unixfs_Get example_env api (WithCancel Background) (FromCid c) = Some (Inr root)
     \<and> os_MkdirAll example_env ''Download'' 511 = None
     \<and> files_WriteTo example_env root (filepath_Clean example_env ''./Download/Qm1'') = None
     \<and> trace (example_started\<lparr>trace := trace example_started
        @ fetch_events example_env (CoreAPI 0) (WithCancel Background) ''Qm1'' (Cid ''Qm1'')
            (Directory [(''a.txt'', File ''hello'')]) [\<lparr>Name = ''a.txt''\<rparr>]\<rparr>) = trace s1
          @ [Printf ''Fetching a file from the network with CID %s\<newline>'' [S r],
             Call_Get api (WithCancel Background) (FromCid c),
             Call_Ls api (WithCancel Background) (FromCid c)]
          @ entry_events 0 es
          @ [Call_MkdirAll ''Download'' 511,
             Call_WriteTo root (filepath_Clean example_env ''./Download/Qm1''),
             Printf ''Wrote the files to %s\<newline>'' [S ''./Download/Qm1''],
             Call_cancel])"
  using example_download DownloadFromCid_output_location [OF example_download]
  by blast

text \<open>
  Claim C6. In publish mode (a value for \<^verbatim>\<open>-f\<close>, none for \<^verbatim>\<open>-c\<close>): if \<^verbatim>\<open>UploadFiles\<close>
  returns, or the process exits with status 0, then a \<open>SIGINT\<close> or \<open>SIGTERM\<close> was
  received, after the root CID was printed and after \<^verbatim>\<open>signal.Notify\<close>, and the trace ends
  with that receipt, the farewell line and \<open>cancel\<close>. When the publish succeeds (the
  node starts, the input is read and added, the listing and the size are obtained) and
  no signal arrives, the process never returns and never exits; it has printed the root
  CID and has not cancelled the node's context. When a signal arrives, it returns and the
  process exits with status 0.
\<close>

theorem publish_waits_for_signal:
  assumes "flagFilePath \<noteq> []"
  shows "((\<exists>v. fst (UploadFiles e flagFilePath s) = Returns v)
            \<or> exit_status (fst (main e [] flagFilePath s)) = Some 0 \<longrightarrow>
          (\<exists>sg pre cid. signal_recv e = Some sg \<and> (sg = SIGINT \<or> sg = SIGTERM)
             \<and> trace (snd (main e [] flagFilePath s)) =
                 pre @ [Call_Notify [SIGINT, SIGTERM], Received sg,
                        Println ''\<newline>Adios!'', Call_cancel]
             \<and> Printf ''Added file to IPFS. Now share this CID with your friend:\<newline>%s\<newline>''
                  [S cid] \<in> set pre))
       \<and> (\<forall>api s1 n fi ip es sz.
            StartIpfsNode e s = (Returns (WithCancel Background, api, None), s1)
          \<and> GetUnixfsNode e flagFilePath = Inr n \<and> os_Stat e flagFilePath = Inr fi
          \<and> unixfs_Add e api (WithCancel Background) (upload_node e flagFilePath fi n) = Inr ip
          \<and> unixfs_Ls e api (WithCancel Background) ip = Inr es
          \<and> node_Size e (upload_node e flagFilePath fi n) = Inr sz
          \<longrightarrow>
            (signal_recv e = None \<longrightarrow>
               fst (main e [] flagFilePath s) = Blocks
             \<and> exit_status (fst (main e [] flagFilePath s)) = None
             \<and> (\<exists>evs. trace (snd (main e [] flagFilePath s)) =
                    trace s @ evs @ [Call_Notify [SIGINT, SIGTERM]]
                  \<and> Call_cancel \<notin> set evs
                  \<and> Printf ''Added file to IPFS. Now share this CID with your friend:\<newline>%s\<newline>''
                       [S (path_String e ip)] \<in> set evs))
          \<and> (\<forall>sg. signal_recv e = Some sg \<longrightarrow>
               fst (UploadFiles e flagFilePath s) = Returns (path_String e ip, None)
             \<and> fst (main e [] flagFilePath s) = Returns ()
             \<and> exit_status (fst (main e [] flagFilePath s)) = Some 0))"
proof (intro conjI impI allI)
  assume h: "(\<exists>v. fst (UploadFiles e flagFilePath s) = Returns v)
            \<or> exit_status (fst (main e [] flagFilePath s)) = Some 0"
  have m: "main e [] flagFilePath s = bnd (UploadFiles e flagFilePath) (\<lambda>_. ret ()) s"
    using assms by (rule main_publish)
  from h m obtain v where v: "fst (UploadFiles e flagFilePath s) = Returns v"
    by (cases "UploadFiles e flagFilePath s"; cases "fst (UploadFiles e flagFilePath s)")
       (auto simp: run_defs)
  with UploadFiles_cases [of e flagFilePath s]
  obtain api s1 n fi ip es sz where ok:
      "StartIpfsNode e s = (Returns (WithCancel Background, api, None), s1)"
      "GetUnixfsNode e flagFilePath = Inr n" "os_Stat e flagFilePath = Inr fi"
      "unixfs_Add e api (WithCancel Background) (upload_node e flagFilePath fi n) = Inr ip"
      "unixfs_Ls e api (WithCancel Background) ip = Inr es"
      "node_Size e (upload_node e flagFilePath fi n) = Inr sz"
    by fastforce
  note run = UploadFiles_ok [OF ok]
  from run v obtain sg where sg: "signal_recv e = Some sg"
    by (cases "signal_recv e") simp_all
  let ?pre = "trace s1 @ [Call_Add api (WithCancel Background) (upload_node e flagFilePath fi n),
      Printf ''Added file to IPFS. Now share this CID with your friend:\<newline>%s\<newline>''
        [S (path_String e ip)],
      Call_Ls api (WithCancel Background) ip] @ entry_events 0 es
     @ [Printf ''Seeding size: %s\<newline>'' [S (humanize_Bytes e sz)], Go_ForeverSpin]"
  from run sg m have "trace (snd (main e [] flagFilePath s)) =
      ?pre @ [Call_Notify [SIGINT, SIGTERM], Received sg, Println ''\<newline>Adios!'', Call_cancel]"
    by (simp add: state_of_dropped_result publish_events_def)
  moreover have "Printf ''Added file to IPFS. Now share this CID with your friend:\<newline>%s\<newline>''
        [S (path_String e ip)] \<in> set ?pre" by simp
  moreover have "sg = SIGINT \<or> sg = SIGTERM" by (cases sg) simp_all
  ultimately show "\<exists>sg pre cid. signal_recv e = Some sg \<and> (sg = SIGINT \<or> sg = SIGTERM)
             \<and> trace (snd (main e [] flagFilePath s)) =
                 pre @ [Call_Notify [SIGINT, SIGTERM], Received sg,
                        Println ''\<newline>Adios!'', Call_cancel]
             \<and> Printf ''Added file to IPFS. Now share this CID with your friend:\<newline>%s\<newline>''
                  [S cid] \<in> set pre"
    using sg by blast
next
  fix api s1 n fi ip es sz
  assume a: "StartIpfsNode e s = (Returns (WithCancel Background, api, None), s1)
          \<and> GetUnixfsNode e flagFilePath = Inr n \<and> os_Stat e flagFilePath = Inr fi
          \<and> unixfs_Add e api (WithCancel Background) (upload_node e flagFilePath fi n) = Inr ip
          \<and> unixfs_Ls e api (WithCancel Background) ip = Inr es
          \<and> node_Size e (upload_node e flagFilePath fi n) = Inr sz"
    and none: "signal_recv e = None"
  then have ok:
      "StartIpfsNode e s = (Returns (WithCancel Background, api, None), s1)"
      "GetUnixfsNode e flagFilePath = Inr n" "os_Stat e flagFilePath = Inr fi"
      "unixfs_Add e api (WithCancel Background) (upload_node e flagFilePath fi n) = Inr ip"
      "unixfs_Ls e api (WithCancel Background) ip = Inr es"
      "node_Size e (upload_node e flagFilePath fi n) = Inr sz"
    by simp_all
  have m: "main e [] flagFilePath s = bnd (UploadFiles e flagFilePath) (\<lambda>_. ret ()) s"
    using assms by (rule main_publish)
  from UploadFiles_ok [OF ok] none
  have run: "UploadFiles e flagFilePath s = (Blocks, s1\<lparr>trace := trace s1 @
      publish_events e api (WithCancel Background) (upload_node e flagFilePath fi n) ip es sz\<rparr>)"
    by simp
  with m show b: "fst (main e [] flagFilePath s) = Blocks" by (simp add: bnd_def)
  then show "exit_status (fst (main e [] flagFilePath s)) = None" by simp
  from StartIpfsNode_cases [of e s] ok(1)
  obtain evs0 where e0: "trace s1 = trace s @ evs0" "list_all startup_event evs0" by auto
  let ?evs = "evs0 @ [Call_Add api (WithCancel Background) (upload_node e flagFilePath fi n),
      Printf ''Added file to IPFS. Now share this CID with your friend:\<newline>%s\<newline>''
        [S (path_String e ip)],
      Call_Ls api (WithCancel Background) ip] @ entry_events 0 es
     @ [Printf ''Seeding size: %s\<newline>'' [S (humanize_Bytes e sz)], Go_ForeverSpin]"
  from run m e0 have "trace (snd (main e [] flagFilePath s)) =
       trace s @ ?evs @ [Call_Notify [SIGINT, SIGTERM]]"
    by (simp add: state_of_dropped_result publish_events_def)
  moreover from e0(2) have "Call_cancel \<notin> set ?evs"
    by (simp add: startup_no_cancel entry_events_no_cancel)
  moreover have "Printf ''Added file to IPFS. Now share this CID with your friend:\<newline>%s\<newline>''
        [S (path_String e ip)] \<in> set ?evs" by simp
  ultimately show "\<exists>evs. trace (snd (main e [] flagFilePath s)) =
                    trace s @ evs @ [Call_Notify [SIGINT, SIGTERM]]
                  \<and> Call_cancel \<notin> set evs
                  \<and> Printf ''Added file to IPFS. Now share this CID with your friend:\<newline>%s\<newline>''
                       [S (path_String e ip)] \<in> set evs"
    by blast
next
  fix api s1 n fi ip es sz sg
  assume a: "StartIpfsNode e s = (Returns (WithCancel Background, api, None), s1)
          \<and> GetUnixfsNode e flagFilePath = Inr n \<and> os_Stat e flagFilePath = Inr fi
          \<and> unixfs_Add e api (WithCancel Background) (upload_node e flagFilePath fi n) = Inr ip
          \<and> unixfs_Ls e api (WithCancel Background) ip = Inr es
          \<and> node_Size e (upload_node e flagFilePath fi n) = Inr sz"
    and sg: "signal_recv e = Some sg"
  then have ok:
      "StartIpfsNode e s = (Returns (WithCancel Background, api, None), s1)"
      "GetUnixfsNode e flagFilePath = Inr n" "os_Stat e flagFilePath = Inr fi"
      "unixfs_Add e api (WithCancel Background) (upload_node e flagFilePath fi n) = Inr ip"
      "unixfs_Ls e api (WithCancel Background) ip = Inr es"
      "node_Size e (upload_node e flagFilePath fi n) = Inr sz"
    by simp_all
  have m: "main e [] flagFilePath s = bnd (UploadFiles e flagFilePath) (\<lambda>_. ret ()) s"
    using assms by (rule main_publish)
  from UploadFiles_ok [OF ok] sg
  show u: "fst (UploadFiles e flagFilePath s) = Returns (path_String e ip, None)" by simp
  with m show r: "fst (main e [] flagFilePath s) = Returns ()"
    by (cases "UploadFiles e flagFilePath s") (simp add: run_defs)
  then show "exit_status (fst (main e [] flagFilePath s)) = Some 0" by simp
qed

theorem publish_waits_for_signal_witness:
  "''a.txt'' \<noteq> []
   \<and> signal_recv example_env = Some SIGINT
   \<and> fst (UploadFiles example_env ''a.txt'' init_proc) = Returns (''/ipfs/Qm1'', None)
   \<and> exit_status (fst (main example_env [] ''a.txt'' init_proc)) = Some 0
   \<and> (\<exists>sg pre cid. signal_recv example_env = Some sg \<and> (sg = SIGINT \<or> sg = SIGTERM)
         \<and> trace (snd (main example_env [] ''a.txt'' init_proc)) =
              pre @ [Call_Notify [SIGINT, SIGTERM], Received sg,
                     Println ''\<newline>Adios!'', Call_cancel]
         \<and> Printf ''Added file to IPFS. Now share this CID with your friend:\<newline>%s\<newline>''
              [S cid] \<in> set pre)
   \<and> signal_recv quiet_env = None
   \<and> fst (main quiet_env [] ''a.txt'' init_proc) = Blocks
   \<and> exit_status (fst (main quiet_env [] ''a.txt'' init_proc)) = None"
proof -
  have a: "''a.txt'' \<noteq> []" by simp
  note ex = publish_waits_for_signal [OF a, of example_env init_proc]
  note qu = publish_waits_for_signal [OF a, of quiet_env init_proc]
  have ok: "StartIpfsNode example_env init_proc =
        (Returns (WithCancel Background, CoreAPI 0, None), example_started)
      \<and> GetUnixfsNode example_env ''a.txt'' = Inr (File ''hello'')
      \<and> os_Stat example_env ''a.txt'' = Inr \<lparr>IsDir = False\<rparr>
      \<and> unixfs_Add example_env (CoreAPI 0) (WithCancel Background)
           (upload_node example_env ''a.txt'' \<lparr>IsDir = False\<rparr> (File ''hello''))
          = Inr (FromCid (Cid ''Qm1''))
      \<and> unixfs_Ls example_env (CoreAPI 0) (WithCancel Background) (FromCid (Cid ''Qm1''))
          = Inr [\<lparr>Name = ''a.txt''\<rparr>]
      \<and> node_Size example_env
           (upload_node example_env ''a.txt'' \<lparr>IsDir = False\<rparr> (File ''hello'')) = Inr 5"
    using example_start example_answers(1-5) by blast
  have okq: "StartIpfsNode quiet_env init_proc =
        (Returns (WithCancel Background, CoreAPI 0, None), example_started)
      \<and> GetUnixfsNode quiet_env ''a.txt'' = Inr (File ''hello'')
      \<and> os_Stat quiet_env ''a.txt'' = Inr \<lparr>IsDir = False\<rparr>
      \<and> unixfs_Add quiet_env (CoreAPI 0) (WithCancel Background)
           (upload_node quiet_env ''a.txt'' \<lparr>IsDir = False\<rparr> (File ''hello''))
          = Inr (FromCid (Cid ''Qm1''))
      \<and> unixfs_Ls quiet_env (CoreAPI 0) (WithCancel Background) (FromCid (Cid ''Qm1''))
          = Inr [\<lparr>Name = ''a.txt''\<rparr>]
      \<and> node_Size quiet_env
           (upload_node quiet_env ''a.txt'' \<lparr>IsDir = False\<rparr> (File ''hello'')) = Inr 5"
    using quiet_start quiet_answers(1-5) by blast
  from ex ok example_answers(11)
  have 1: "fst (UploadFiles example_env ''a.txt'' init_proc)
        = Returns (path_String example_env (FromCid (Cid ''Qm1'')), None)
      \<and> exit_status (fst (main example_env [] ''a.txt'' init_proc)) = Some 0"
    by blast
  then have 2: "fst (UploadFiles example_env ''a.txt'' init_proc) = Returns (''/ipfs/Qm1'', None)
      \<and> exit_status (fst (main example_env [] ''a.txt'' init_proc)) = Some 0"
    unfolding example_answers(10) .
  from ex 2
  have 3: "\<exists>sg pre cid. signal_recv example_env = Some sg \<and> (sg = SIGINT \<or> sg = SIGTERM)
         \<and> trace (snd (main example_env [] ''a.txt'' init_proc)) =
              pre @ [Call_Notify [SIGINT, SIGTERM], Received sg,
                     Println ''\<newline>Adios!'', Call_cancel]
         \<and> Printf ''Added file to IPFS. Now share this CID with your friend:\<newline>%s\<newline>''
              [S cid] \<in> set pre"
    by blast
  from qu okq quiet_answers(6)
  have 4: "fst (main quiet_env [] ''a.txt'' init_proc) = Blocks
      \<and> exit_status (fst (main quiet_env [] ''a.txt'' init_proc)) = None"
    by blast
  from a example_answers(11) 2 3 quiet_answers(6) 4 show ?thesis by blast
qed

text \<open>
  Claim C7. Every run of \<^verbatim>\<open>UploadFiles\<close> and of \<^verbatim>\<open>DownloadFromCid\<close> either panics, or
  every call it made outside \<^verbatim>\<open>main.go\<close> succeeded. For both these are the calls of the
  start-up (\<open>node_starts\<close>: the plugin loader, its initialisation and injection unless
  the plugins were set up before, the temporary directory, the configuration,
  \<^verbatim>\<open>fsrepo.Init\<close>, \<^verbatim>\<open>fsrepo.Open\<close>, \<^verbatim>\<open>core.NewNode\<close>, \<^verbatim>\<open>coreapi.NewCoreAPI\<close>); then
  \<^verbatim>\<open>os.Stat\<close>, \<^verbatim>\<open>files.NewSerialFile\<close>, \<^verbatim>\<open>Add\<close>, \<^verbatim>\<open>Ls\<close> and \<^verbatim>\<open>Size\<close> for a publish, and
  \<^verbatim>\<open>cid.Parse\<close>, \<^verbatim>\<open>Get\<close>, \<^verbatim>\<open>Ls\<close>, \<^verbatim>\<open>os.MkdirAll\<close> and \<^verbatim>\<open>files.WriteTo\<close> for a fetch. So an
  error at any of these calls is a panic; in particular both functions panic when the
  node cannot start. A run that does not panic waits (for the signal, or for \<^verbatim>\<open>Get\<close>) or
  returns, and what it returns as \<open>err\<close> is \<^verbatim>\<open>nil\<close>. A panic of either function is a panic
  of \<^verbatim>\<open>main\<close>, which ends the process with exit status 2.
\<close>

theorem errors_panic:
  "((\<exists>m. fst (UploadFiles e p s) = Panics m) \<or>
     ((fst (UploadFiles e p s) = Blocks \<or> (\<exists>c. fst (UploadFiles e p s) = Returns (c, None)))
      \<and> (\<exists>api fi n ip es sz.
            node_starts e s api
          \<and> os_Stat e p = Inr fi \<and> files_NewSerialFile e p False fi = Inr n
          \<and> unixfs_Add e api (WithCancel Background) (upload_node e p fi n) = Inr ip
          \<and> unixfs_Ls e api (WithCancel Background) ip = Inr es
          \<and> node_Size e (upload_node e p fi n) = Inr sz)))
   \<and> ((\<exists>m. fst (DownloadFromCid e str s) = Panics m) \<or>
     ((fst (DownloadFromCid e str s) = Blocks
         \<or> (\<exists>out. fst (DownloadFromCid e str s) = Returns (out, None, 100)))
      \<and> (\<exists>api r c.
            node_starts e s api
          \<and> GetCidStrFromString str = Inr r \<and> cid_Parse e r = Inr c
          \<and> (unixfs_Get e api (WithCancel Background) (FromCid c) = None \<or>
             (\<exists>root es.
                unixfs_Get e api (WithCancel Background) (FromCid c) = Some (Inr root)
              \<and> unixfs_Ls e api (WithCancel Background) (FromCid c) = Inr es
              \<and> os_MkdirAll e ''Download'' 511 = None
              \<and> files_WriteTo e root (filepath_Clean e (''./Download/'' @ r)) = None)))))
   \<and> ((\<forall>api. \<not> node_starts e s api) \<longrightarrow>
        (\<exists>m. fst (UploadFiles e p s) = Panics m)
      \<and> (\<exists>m. fst (DownloadFromCid e str s) = Panics m))
   \<and> (UploadFiles e p s = (Returns (cidStr, err), s') \<longrightarrow> err = None)
   \<and> (DownloadFromCid e str s = (Returns (outputPath, err', progress), s'') \<longrightarrow> err' = None)
   \<and> (p \<noteq> [] \<and> fst (UploadFiles e p s) = Panics m \<longrightarrow>
        fst (main e [] p s) = Panics m \<and> exit_status (fst (main e [] p s)) = Some 2)
   \<and> (str \<noteq> [] \<and> fst (DownloadFromCid e str s) = Panics m \<longrightarrow>
        fst (main e str p s) = Panics m \<and> exit_status (fst (main e str p s)) = Some 2)"
proof -
  have U: "(\<exists>m. fst (UploadFiles e p s) = Panics m) \<or>
     ((fst (UploadFiles e p s) = Blocks \<or> (\<exists>c. fst (UploadFiles e p s) = Returns (c, None)))
      \<and> (\<exists>api fi n ip es sz.
            node_starts e s api
          \<and> os_Stat e p = Inr fi \<and> files_NewSerialFile e p False fi = Inr n
          \<and> unixfs_Add e api (WithCancel Background) (upload_node e p fi n) = Inr ip
          \<and> unixfs_Ls e api (WithCancel Background) ip = Inr es
          \<and> node_Size e (upload_node e p fi n) = Inr sz))"
  proof (cases "\<exists>m. fst (UploadFiles e p s) = Panics m")
    case True
    then show ?thesis ..
  next
    case False
    with UploadFiles_cases [of e p s]
    obtain api s1 n fi ip es sz where ok:
        "StartIpfsNode e s = (Returns (WithCancel Background, api, None), s1)"
        "GetUnixfsNode e p = Inr n" "os_Stat e p = Inr fi"
        "unixfs_Add e api (WithCancel Background) (upload_node e p fi n) = Inr ip"
        "unixfs_Ls e api (WithCancel Background) ip = Inr es"
        "node_Size e (upload_node e p fi n) = Inr sz"
      by fastforce
    from UploadFiles_ok [OF ok]
    have "fst (UploadFiles e p s) = Blocks \<or> (\<exists>c. fst (UploadFiles e p s) = Returns (c, None))"
      by (cases "signal_recv e") simp_all
    moreover from ok(1) have "node_starts e s api" by (rule StartIpfsNode_node_starts)
    moreover from ok(2,3) have "files_NewSerialFile e p False fi = Inr n"
      by (rule GetUnixfsNode_calls)
    ultimately show ?thesis using ok by blast
  qed
  have D: "(\<exists>m. fst (DownloadFromCid e str s) = Panics m) \<or>
     ((fst (DownloadFromCid e str s) = Blocks
         \<or> (\<exists>out. fst (DownloadFromCid e str s) = Returns (out, None, 100)))
      \<and> (\<exists>api r c.
            node_starts e s api
          \<and> GetCidStrFromString str = Inr r \<and> cid_Parse e r = Inr c
          \<and> (unixfs_Get e api (WithCancel Background) (FromCid c) = None \<or>
             (\<exists>root es.
                unixfs_Get e api (WithCancel Background) (FromCid c) = Some (Inr root)
              \<and> unixfs_Ls e api (WithCancel Background) (FromCid c) = Inr es
              \<and> os_MkdirAll e ''Download'' 511 = None
              \<and> files_WriteTo e root (filepath_Clean e (''./Download/'' @ r)) = None))))"
  proof (cases "\<exists>m. fst (DownloadFromCid e str s) = Panics m")
    case True
    then show ?thesis ..
  next
    case False
    with DownloadFromCid_cases [of e str s]
    obtain api s1 r c where st: "StartIpfsNode e s = (Returns (WithCancel Background, api, None), s1)"
      and r: "GetCidStrFromString str = Inr r" and c: "cid_Parse e r = Inr c"
      and g: "unixfs_Get e api (WithCancel Background) (FromCid c) = None \<or>
             (\<exists>root es.
                unixfs_Get e api (WithCancel Background) (FromCid c) = Some (Inr root)
              \<and> unixfs_Ls e api (WithCancel Background) (FromCid c) = Inr es
              \<and> os_MkdirAll e ''Download'' 511 = None
              \<and> files_WriteTo e root (filepath_Clean e (''./Download/'' @ r)) = None)"
      by fastforce
    from g have "fst (DownloadFromCid e str s) = Blocks
         \<or> (\<exists>out. fst (DownloadFromCid e str s) = Returns (out, None, 100))"
    proof
      assume "unixfs_Get e api (WithCancel Background) (FromCid c) = None"
      from DownloadFromCid_blocks [OF st r c this] show ?thesis by simp
    next
      assume "\<exists>root es.
                unixfs_Get e api (WithCancel Background) (FromCid c) = Some (Inr root)
              \<and> unixfs_Ls e api (WithCancel Background) (FromCid c) = Inr es
              \<and> os_MkdirAll e ''Download'' 511 = None
              \<and> files_WriteTo e root (filepath_Clean e (''./Download/'' @ r)) = None"
      then obtain root es where ok:
          "unixfs_Get e api (WithCancel Background) (FromCid c) = Some (Inr root)"
          "unixfs_Ls e api (WithCancel Background) (FromCid c) = Inr es"
          "os_MkdirAll e ''Download'' 511 = None"
          "files_WriteTo e root (filepath_Clean e (''./Download/'' @ r)) = None"
        by blast
      from DownloadFromCid_ok [OF st r c ok] show ?thesis by simp
    qed
    moreover from st have "node_starts e s api" by (rule StartIpfsNode_node_starts)
    ultimately show ?thesis using r c g by blast
  qed
  have N: "(\<forall>api. \<not> node_starts e s api) \<longrightarrow>
        (\<exists>m. fst (UploadFiles e p s) = Panics m)
      \<and> (\<exists>m. fst (DownloadFromCid e str s) = Panics m)"
    using U D by blast
  have Un: "UploadFiles e p s = (Returns (cidStr, err), s') \<longrightarrow> err = None"
    using U by auto
  have Dn: "DownloadFromCid e str s = (Returns (outputPath, err', progress), s'') \<longrightarrow> err' = None"
    using D by auto
  have Ux: "p \<noteq> [] \<and> fst (UploadFiles e p s) = Panics m \<longrightarrow>
        fst (main e [] p s) = Panics m \<and> exit_status (fst (main e [] p s)) = Some 2"
    by (auto simp: main_def bnd_def split: prod.splits outcome.splits)
  have Dx: "str \<noteq> [] \<and> fst (DownloadFromCid e str s) = Panics m \<longrightarrow>
        fst (main e str p s) = Panics m \<and> exit_status (fst (main e str p s)) = Some 2"
    by (auto simp: main_def bnd_def split: prod.splits outcome.splits)
  from U D N Un Dn Ux Dx show ?thesis by blast
qed

theorem errors_panic_witness:
  "UploadFiles example_env ''a.txt'' init_proc =
     (Returns (''/ipfs/Qm1'', None), snd (UploadFiles example_env ''a.txt'' init_proc))
   \<and> DownloadFromCid example_env ''/ipfs/Qm1'' init_proc =
     (Returns (''./Download/Qm1'', None, 100),
      snd (DownloadFromCid example_env ''/ipfs/Qm1'' init_proc))
   \<and> ''a.txt'' \<noteq> [] \<and> ''Qm1'' \<noteq> []
   \<and> (\<forall>api. \<not> node_starts broken_plugins_env init_proc api)
   \<and> fst (UploadFiles broken_plugins_env ''a.txt'' init_proc)
        = Panics ''failed to spawn ephemeral node: error loading plugins: boom''
   \<and> fst (main broken_plugins_env [] ''a.txt'' init_proc)
        = Panics ''failed to spawn ephemeral node: error loading plugins: boom''
   \<and> exit_status (fst (main broken_plugins_env [] ''a.txt'' init_proc)) = Some 2
   \<and> fst (DownloadFromCid broken_plugins_env ''Qm1'' init_proc)
        = Panics ''failed to spawn ephemeral node: error loading plugins: boom''
   \<and> fst (main broken_plugins_env ''Qm1'' [] init_proc)
        = Panics ''failed to spawn ephemeral node: error loading plugins: boom''
   \<and> exit_status (fst (main broken_plugins_env ''Qm1'' [] init_proc)) = Some 2
   \<and> fst (UploadFiles failing_env ''a.txt'' init_proc) = Panics ''error: no such file or directory''
   \<and> fst (main failing_env [] ''a.txt'' init_proc) = Panics ''error: no such file or directory''
   \<and> exit_status (fst (main failing_env [] ''a.txt'' init_proc)) = Some 2
   \<and> fst (DownloadFromCid failing_env ''Qm1'' init_proc) = Panics ''error: permission denied''
   \<and> fst (main failing_env ''Qm1'' ''a.txt'' init_proc) = Panics ''error: permission denied''
   \<and> exit_status (fst (main failing_env ''Qm1'' ''a.txt'' init_proc)) = Some 2"
proof -
  have u: "UploadFiles example_env ''a.txt'' init_proc =
     (Returns (''/ipfs/Qm1'', None), snd (UploadFiles example_env ''a.txt'' init_proc))"
    using UploadFiles_ok [OF example_start example_answers(1) example_answers(2)
        example_answers(3) example_answers(4) example_answers(5), of "''a.txt''"]
    by (simp add: example_answers)
  have d: "DownloadFromCid example_env ''/ipfs/Qm1'' init_proc =
     (Returns (''./Download/Qm1'', None, 100),
      snd (DownloadFromCid example_env ''/ipfs/Qm1'' init_proc))"
    by (simp add: example_download)
  have a: "''a.txt'' \<noteq> []" and c: "''Qm1'' \<noteq> []" by simp_all
  have n: "\<forall>api. \<not> node_starts broken_plugins_env init_proc api"
    by (simp add: broken_never_starts)
  from errors_panic [where e = broken_plugins_env and p = "''a.txt''" and s = init_proc
      and str = "''Qm1''"
      and m = "''failed to spawn ephemeral node: error loading plugins: boom''"]
    a broken_upload
  have 1: "fst (main broken_plugins_env [] ''a.txt'' init_proc)
        = Panics ''failed to spawn ephemeral node: error loading plugins: boom''
     \<and> exit_status (fst (main broken_plugins_env [] ''a.txt'' init_proc)) = Some 2"
    by blast
  from errors_panic [where e = broken_plugins_env and p = "[]" and s = init_proc
      and str = "''Qm1''"
      and m = "''failed to spawn ephemeral node: error loading plugins: boom''"]
    c broken_download
  have 2: "fst (main broken_plugins_env ''Qm1'' [] init_proc)
        = Panics ''failed to spawn ephemeral node: error loading plugins: boom''
     \<and> exit_status (fst (main broken_plugins_env ''Qm1'' [] init_proc)) = Some 2"
    by blast
  from errors_panic [where e = failing_env and p = "''a.txt''" and s = init_proc
      and str = "''Qm1''" and m = "''error: no such file or directory''"] a failing_upload
  have 3: "fst (main failing_env [] ''a.txt'' init_proc) = Panics ''error: no such file or directory''
     \<and> exit_status (fst (main failing_env [] ''a.txt'' init_proc)) = Some 2"
    by blast
  from errors_panic [where e = failing_env and p = "''a.txt''" and s = init_proc
      and str = "''Qm1''" and m = "''error: permission denied''"] c failing_download
  have 4: "fst (main failing_env ''Qm1'' ''a.txt'' init_proc) = Panics ''error: permission denied''
     \<and> exit_status (fst (main failing_env ''Qm1'' ''a.txt'' init_proc)) = Some 2"
    by blast
  from u d a c n 1 2 3 4 broken_upload broken_download failing_upload failing_download
  show ?thesis by blast
qed

text \<open>
  Claim C8. The two modes exclude each other: whatever the two flag values, \<^verbatim>\<open>main\<close> is
  exactly one of three runs. With neither value it prints the usage message and nothing
  else happens. With a value for \<^verbatim>\<open>-c\<close> it is the run of \<^verbatim>\<open>DownloadFromCid\<close>, whatever
  \<^verbatim>\<open>-f\<close> holds (the path is ignored). With a value for \<^verbatim>\<open>-f\<close> alone it is the run of
  \<^verbatim>\<open>UploadFiles\<close>, which prints the string of the root path that \<^verbatim>\<open>Add\<close> returned to
  standard output as soon as \<^verbatim>\<open>Add\<close> succeeds.
\<close>

theorem main_modes:
  "(flagCid = [] \<and> flagFilePath = [] \<longrightarrow>
      main e flagCid flagFilePath s = (Returns (), s\<lparr>trace := trace s @ [Println usage]\<rparr>))
   \<and> (flagCid \<noteq> [] \<longrightarrow>
      main e flagCid flagFilePath s = bnd (DownloadFromCid e flagCid) (\<lambda>_. ret ()) s
      \<and> main e flagCid flagFilePath s = main e flagCid [] s)
   \<and> (flagCid = [] \<and> flagFilePath \<noteq> [] \<longrightarrow>
      main e flagCid flagFilePath s = bnd (UploadFiles e flagFilePath) (\<lambda>_. ret ()) s
      \<and> (\<forall>api s1 n fi ip.
            StartIpfsNode e s = (Returns (WithCancel Background, api, None), s1)
          \<and> GetUnixfsNode e flagFilePath = Inr n \<and> os_Stat e flagFilePath = Inr fi
          \<and> unixfs_Add e api (WithCancel Background) (upload_node e flagFilePath fi n) = Inr ip
          \<longrightarrow> Printf ''Added file to IPFS. Now share this CID with your friend:\<newline>%s\<newline>''
                [S (path_String e ip)] \<in> set (trace (snd (main e flagCid flagFilePath s)))))"
proof (intro conjI impI allI)
  assume "flagCid = [] \<and> flagFilePath = []"
  then show "main e flagCid flagFilePath s = (Returns (), s\<lparr>trace := trace s @ [Println usage]\<rparr>)"
    by (simp add: main_def emit_def)
next
  assume "flagCid \<noteq> []"
  then show "main e flagCid flagFilePath s = bnd (DownloadFromCid e flagCid) (\<lambda>_. ret ()) s"
    by (simp add: main_def)
next
  assume "flagCid \<noteq> []"
  then show "main e flagCid flagFilePath s = main e flagCid [] s"
    by (simp add: main_def)
next
  assume "flagCid = [] \<and> flagFilePath \<noteq> []"
  then show "main e flagCid flagFilePath s = bnd (UploadFiles e flagFilePath) (\<lambda>_. ret ()) s"
    by (simp add: main_def)
next
  fix api s1 n fi ip
  assume m: "flagCid = [] \<and> flagFilePath \<noteq> []"
    and a: "StartIpfsNode e s = (Returns (WithCancel Background, api, None), s1)
          \<and> GetUnixfsNode e flagFilePath = Inr n \<and> os_Stat e flagFilePath = Inr fi
          \<and> unixfs_Add e api (WithCancel Background) (upload_node e flagFilePath fi n) = Inr ip"
  from m have "snd (main e flagCid flagFilePath s) = snd (UploadFiles e flagFilePath s)"
    by (simp add: main_def state_of_dropped_result)
  with a show "Printf ''Added file to IPFS. Now share this CID with your friend:\<newline>%s\<newline>''
                [S (path_String e ip)] \<in> set (trace (snd (main e flagCid flagFilePath s)))"
    using UploadFiles_announces by simp
qed

theorem main_modes_witness:
  "main example_env [] [] init_proc =
      (Returns (), init_proc\<lparr>trace := trace init_proc @ [Println usage]\<rparr>)
   \<and> ''Qm1'' \<noteq> []
   \<and> main example_env ''Qm1'' ''a.txt'' init_proc =
       bnd (DownloadFromCid example_env ''Qm1'') (\<lambda>_. ret ()) init_proc
   \<and> main example_env ''Qm1'' ''a.txt'' init_proc = main example_env ''Qm1'' [] init_proc
   \<and> ''a.txt'' \<noteq> []
   \<and> main example_env [] ''a.txt'' init_proc =
       bnd (UploadFiles example_env ''a.txt'') (\<lambda>_. ret ()) init_proc
   \<and> Printf ''Added file to IPFS. Now share this CID with your friend:\<newline>%s\<newline>''
        [S ''/ipfs/Qm1''] \<in> set (trace (snd (main example_env [] ''a.txt'' init_proc)))"
proof -
  have c: "''Qm1'' \<noteq> []" and f: "''a.txt'' \<noteq> []" by simp_all
  have 1: "main example_env [] [] init_proc =
      (Returns (), init_proc\<lparr>trace := trace init_proc @ [Println usage]\<rparr>)"
    using main_modes [of "[]" "[]" example_env init_proc] by blast
  have 2: "main example_env ''Qm1'' ''a.txt'' init_proc =
       bnd (DownloadFromCid example_env ''Qm1'') (\<lambda>_. ret ()) init_proc
     \<and> main example_env ''Qm1'' ''a.txt'' init_proc = main example_env ''Qm1'' [] init_proc"
    using main_modes [of "''Qm1''" "''a.txt''" example_env init_proc] c by blast
  have ok: "StartIpfsNode example_env init_proc =
       (Returns (WithCancel Background, CoreAPI 0, None), example_started)
     \<and> GetUnixfsNode example_env ''a.txt'' = Inr (File ''hello'')
     \<and> os_Stat example_env ''a.txt'' = Inr \<lparr>IsDir = False\<rparr>
     \<and> unixfs_Add example_env (CoreAPI 0) (WithCancel Background)
         (upload_node example_env ''a.txt'' \<lparr>IsDir = False\<rparr> (File ''hello''))
        = Inr (FromCid (Cid ''Qm1''))"
    using example_start example_answers(1-3) by blast
  have 3: "main example_env [] ''a.txt'' init_proc =
       bnd (UploadFiles example_env ''a.txt'') (\<lambda>_. ret ()) init_proc
     \<and> Printf ''Added file to IPFS. Now share this CID with your friend:\<newline>%s\<newline>''
        [S (path_String example_env (FromCid (Cid ''Qm1'')))]
        \<in> set (trace (snd (main example_env [] ''a.txt'' init_proc)))"
    using main_modes [of "[]" "''a.txt''" example_env init_proc] ok f by blast
  from 3 have 4: "main example_env [] ''a.txt'' init_proc =
       bnd (UploadFiles example_env ''a.txt'') (\<lambda>_. ret ()) init_proc
     \<and> Printf ''Added file to IPFS. Now share this CID with your friend:\<newline>%s\<newline>''
        [S ''/ipfs/Qm1''] \<in> set (trace (snd (main example_env [] ''a.txt'' init_proc)))"
    unfolding example_answers(10) .
  from 1 c 2 f 4 show ?thesis by blast
qed

text \<open>
  Claim C9, amended. \<^verbatim>\<open>SetupPlugins\<close> runs at most once in a process, however often
  \<^verbatim>\<open>SpawnEphemeral\<close> is invoked: after \<open>k\<close> invocations in a fresh process the plugin
  loader was made once (never for \<open>k = 0\<close>). An invocation that finds the flag of
  \<^verbatim>\<open>loadPluginsOnce\<close> set loads nothing, leaves the flag set, and does not depend on the
  plugin loader at all. The invocation that finds it unset sets it, and returns the error
  of \<^verbatim>\<open>SetupPlugins\<close> when there is one.
\<close>

theorem plugins_set_up_at_most_once:
  "length (plugin_loads (trace (spawn_repeatedly e ctx k init_proc))) = (if k = 0 then 0 else 1)
   \<and> (loadPluginsOnce s \<longrightarrow>
         plugin_loads (trace (snd (SpawnEphemeral e ctx s))) = plugin_loads (trace s)
       \<and> loadPluginsOnce (snd (SpawnEphemeral e ctx s))
       \<and> SpawnEphemeral (e\<lparr>loader_NewPluginLoader := f, plugins_Initialize := g,
            plugins_Inject := h\<rparr>) ctx s = SpawnEphemeral e ctx s)
   \<and> (\<not> loadPluginsOnce s \<longrightarrow>
         loadPluginsOnce (snd (SpawnEphemeral e ctx s))
       \<and> (fst (SetupPlugins e [] s) = Returns (Some err) \<longrightarrow>
            fst (SpawnEphemeral e ctx s) = Returns (Inl err)))"
  using spawn_repeatedly_loads [of e ctx k] SpawnEphemeral_once_set [of s e ctx]
    SpawnEphemeral_later_ignores_plugins [where s = s and e = e and f = f and g = g and h = h
      and ctx = ctx]
    SpawnEphemeral_first [of s e ctx]
    SpawnEphemeral_returns_setup_error [where s = s and e = e and err = err and ctx = ctx]
  by blast

text \<open>
  Claim C9 as stated, that later invocations return the recorded error of the first,
  fails: \<open>onceErr\<close> is local to one invocation. When the plugins cannot be loaded, the
  first invocation returns that error and the second one returns a node.
\<close>

theorem later_call_does_not_return_first_error:
  "fst (SpawnEphemeral broken_plugins_env (WithCancel Background) init_proc)
      = Returns (Inl ''error loading plugins: boom'')
   \<and> fst (SpawnEphemeral broken_plugins_env (WithCancel Background)
           (snd (SpawnEphemeral broken_plugins_env (WithCancel Background) init_proc)))
      = Returns (Inr (CoreAPI 0, IpfsNode 0))"
  by (simp add: broken_first broken_second)

theorem plugins_set_up_at_most_once_witness:
  "length (plugin_loads (trace (spawn_repeatedly broken_plugins_env (WithCancel Background) 3
       init_proc))) = 1
   \<and> \<not> loadPluginsOnce init_proc
   \<and> fst (SetupPlugins broken_plugins_env [] init_proc)
        = Returns (Some ''error loading plugins: boom'')
   \<and> fst (SpawnEphemeral broken_plugins_env (WithCancel Background) init_proc)
        = Returns (Inl ''error loading plugins: boom'')
   \<and> loadPluginsOnce (snd (SpawnEphemeral broken_plugins_env (WithCancel Background) init_proc))
   \<and> plugin_loads (trace (snd (SpawnEphemeral broken_plugins_env (WithCancel Background)
        (snd (SpawnEphemeral broken_plugins_env (WithCancel Background) init_proc)))))
       = plugin_loads (trace (snd (SpawnEphemeral broken_plugins_env (WithCancel Background)
           init_proc)))"
proof -
  have n: "\<not> loadPluginsOnce init_proc" by (simp add: init_proc_def)
  have su: "fst (SetupPlugins broken_plugins_env [] init_proc)
        = Returns (Some ''error loading plugins: boom'')"
    by (simp add: SetupPlugins_def run_defs Errorf_def broken_plugins_env_def example_env_def)
  from plugins_set_up_at_most_once [where e = broken_plugins_env and ctx = "WithCancel Background"
      and k = 3 and s = init_proc and err = "''error loading plugins: boom''"] n su
  have 1: "length (plugin_loads (trace (spawn_repeatedly broken_plugins_env
        (WithCancel Background) 3 init_proc))) = 1
     \<and> loadPluginsOnce (snd (SpawnEphemeral broken_plugins_env (WithCancel Background) init_proc))
     \<and> fst (SpawnEphemeral broken_plugins_env (WithCancel Background) init_proc)
        = Returns (Inl ''error loading plugins: boom'')"
    by simp
  from plugins_set_up_at_most_once [where e = broken_plugins_env and ctx = "WithCancel Background"
      and s = "snd (SpawnEphemeral broken_plugins_env (WithCancel Background) init_proc)"] 1
  have 2: "plugin_loads (trace (snd (SpawnEphemeral broken_plugins_env (WithCancel Background)
        (snd (SpawnEphemeral broken_plugins_env (WithCancel Background) init_proc)))))
       = plugin_loads (trace (snd (SpawnEphemeral broken_plugins_env (WithCancel Background)
           init_proc)))"
    by blast
  from n su 1 2 show ?thesis by blast
qed

text \<open>
  Claim C10, amended. The wrapping is in the publish path: the one node \<^verbatim>\<open>UploadFiles\<close>
  hands to \<^verbatim>\<open>Add\<close> is, when \<^verbatim>\<open>os.Stat\<close> says the input path is not a directory, a
  directory of one entry, keyed by \<^verbatim>\<open>filepath.Base\<close> of the input path and holding the
  node read from it; a directory is handed over as it is. The download path wraps
  nothing: the one node \<^verbatim>\<open>DownloadFromCid\<close> hands to \<^verbatim>\<open>files.WriteTo\<close> is the root node
  \<^verbatim>\<open>Get\<close> returned, with the target \<open>./Download/<cid>\<close> (cleaned).
\<close>

theorem wrapping_is_in_UploadFiles:
  "(StartIpfsNode e s = (Returns (ctx, api, None), s1)
      \<and> os_Stat e flagFilePath = Inr fileInfo
      \<and> files_NewSerialFile e flagFilePath False fileInfo = Inr n
     \<longrightarrow> (\<exists>evs. trace (snd (UploadFiles e flagFilePath s)) = trace s1 @ evs
            \<and> added_nodes evs =
                [if \<not> IsDir fileInfo then Directory [(filepath_Base e flagFilePath, n)] else n]))
   \<and> (StartIpfsNode e t = (Returns (ctx', api', None), t1)
      \<and> GetCidStrFromString str = Inr r \<and> cid_Parse e r = Inr c
      \<and> unixfs_Get e api' ctx' (FromCid c) = Some (Inr rootNode)
      \<and> unixfs_Ls e api' ctx' (FromCid c) = Inr es
      \<and> os_MkdirAll e ''Download'' 511 = None
     \<longrightarrow> (\<exists>evs. trace (snd (DownloadFromCid e str t)) = trace t1 @ evs
            \<and> written_nodes evs = [(rootNode, filepath_Clean e (''./Download/'' @ r))]))"
  using UploadFiles_adds [of e s ctx api s1 flagFilePath n fileInfo]
    GetUnixfsNode_reads [of e flagFilePath fileInfo n]
    DownloadFromCid_writes [of e t ctx' api' t1 str r c rootNode es]
  by (simp add: upload_node_def)

text \<open>
  Claim C10 as stated, that the download path wraps a single file in a directory, fails:
  when the content behind the identifier is a single file, \<^verbatim>\<open>DownloadFromCid\<close> hands that
  file itself to \<^verbatim>\<open>files.WriteTo\<close>.
\<close>

theorem download_hands_single_file_unwrapped:
  "fst (DownloadFromCid single_file_env ''Qm1'' init_proc) = Returns (''./Download/Qm1'', None, 100)
   \<and> written_nodes (trace (snd (DownloadFromCid single_file_env ''Qm1'' init_proc)))
       = [(File ''hello'', ''Download/Qm1'')]"
  using DownloadFromCid_ok [OF single_file_start strip_Qm1 single_file_answers(1)
      single_file_answers(2) single_file_answers(3) single_file_answers(4)
      single_file_answers(5)]
  by (simp add: fetch_events_def example_started_def single_file_answers(6)
      written_nodes_append)

theorem wrapping_is_in_UploadFiles_witness:
  "StartIpfsNode example_env init_proc
      = (Returns (WithCancel Background, CoreAPI 0, None), example_started)
   \<and> os_Stat example_env ''a.txt'' = Inr \<lparr>IsDir = False\<rparr>
   \<and> files_NewSerialFile example_env ''a.txt'' False \<lparr>IsDir = False\<rparr> = Inr (File ''hello'')
   \<and> (\<exists>evs. trace (snd (UploadFiles example_env ''a.txt'' init_proc)) = trace example_started @ evs
          \<and> added_nodes evs = [Directory [(''a.txt'', File ''hello'')]])
   \<and> os_Stat directory_env ''docs'' = Inr \<lparr>IsDir = True\<rparr>
   \<and> files_NewSerialFile directory_env ''docs'' False \<lparr>IsDir = True\<rparr>
        = Inr (Directory [(''a.txt'', File ''hello''), (''b.txt'', File ''bye'')])
   \<and> (\<exists>evs. trace (snd (UploadFiles directory_env ''docs'' init_proc)) = trace example_started @ evs
          \<and> added_nodes evs = [Directory [(''a.txt'', File ''hello''), (''b.txt'', File ''bye'')]])
   \<and> GetCidStrFromString ''Qm1'' = Inr ''Qm1''
   \<and> cid_Parse single_file_env ''Qm1'' = Inr (Cid ''Qm1'')
   \<and> unixfs_Get single_file_env (CoreAPI 0) (WithCancel Background) (FromCid (Cid ''Qm1''))
        = Some (Inr (File ''hello''))
   \<and> (\<exists>evs. trace (snd (DownloadFromCid single_file_env ''Qm1'' init_proc))
            = trace example_started @ evs
          \<and> written_nodes evs = [(File ''hello'', ''Download/Qm1'')])"
proof -
  note up = wrapping_is_in_UploadFiles [where e = example_env and s = init_proc
      and flagFilePath = "''a.txt''" and ctx = "WithCancel Background" and api = "CoreAPI 0"
      and ?s1.0 = example_started and n = "File ''hello''" and fileInfo = "\<lparr>IsDir = False\<rparr>",
      THEN conjunct1]
  note updir = wrapping_is_in_UploadFiles [where e = directory_env and s = init_proc
      and flagFilePath = "''docs''" and ctx = "WithCancel Background" and api = "CoreAPI 0"
      and ?s1.0 = example_started
      and n = "Directory [(''a.txt'', File ''hello''), (''b.txt'', File ''bye'')]"
      and fileInfo = "\<lparr>IsDir = True\<rparr>", THEN conjunct1]
  note down = wrapping_is_in_UploadFiles [where e = single_file_env and t = init_proc
      and str = "''Qm1''" and ctx' = "WithCancel Background" and api' = "CoreAPI 0"
      and ?t1.0 = example_started and r = "''Qm1''" and c = "Cid ''Qm1''"
      and rootNode = "File ''hello''" and es = "[\<lparr>Name = ''a.txt''\<rparr>]", THEN conjunct2]
  have rd: "files_NewSerialFile example_env ''a.txt'' False \<lparr>IsDir = False\<rparr>
      = Inr (File ''hello'')"
    by (simp add: example_env_def)
  from up example_start example_answers(2) rd
  have 1: "\<exists>evs. trace (snd (UploadFiles example_env ''a.txt'' init_proc))
          = trace example_started @ evs
        \<and> added_nodes evs = [Directory [(''a.txt'', File ''hello'')]]"
    by (simp add: example_answers(12))
  from updir directory_start directory_answers
  have 2: "\<exists>evs. trace (snd (UploadFiles directory_env ''docs'' init_proc))
          = trace example_started @ evs
        \<and> added_nodes evs = [Directory [(''a.txt'', File ''hello''), (''b.txt'', File ''bye'')]]"
    by simp
  from down single_file_start strip_Qm1 single_file_answers
  have 3: "\<exists>evs. trace (snd (DownloadFromCid single_file_env ''Qm1'' init_proc))
            = trace example_started @ evs
          \<and> written_nodes evs = [(File ''hello'', ''Download/Qm1'')]"
    by simp
  from 1 2 3 example_start example_answers(2) rd directory_answers strip_Qm1
    single_file_answers(1) single_file_answers(2)
  show ?thesis by blast
qed

end
